theory Spec2Isabelle
  imports Main "HOL-Library.Sublist"
begin

section \<open>Text\<close>

text \<open>
  A Python \<open>str\<close> is a sequence of code points. The development models the strings all of
  whose code points are below 256: on these a \<^typ>\<open>char\<close> is exactly one code point
  (\<^term>\<open>of_char c\<close> is its number), and the fragment is closed under every operation of
  the program (\<open>str.lower\<close> maps a code point below 256 to one code point below 256).
  The fourteen accented letters of \<open>slugify\<close>'s table all lie in this range.
\<close>

abbreviation cp :: "char \<Rightarrow> nat" where
  "cp c \<equiv> of_char c"

definition between :: "nat \<Rightarrow> nat \<Rightarrow> nat \<Rightarrow> bool" where
  "between lo hi n = (lo \<le> n \<and> n \<le> hi)"

text \<open>
  \<open>\w\<close> of a \<open>str\<close> pattern: the underscore and every code point that \<open>str.isalnum\<close>
  accepts. Below 256 these are the ASCII letters and digits, the ordinal indicators and the
  micro sign, the superscript digits and vulgar fractions, and the letters of the Latin-1
  supplement (all of \<open>0xC0..0xFF\<close> but the multiplication and division signs).
\<close>

definition is_alnum :: "char \<Rightarrow> bool" where
  "is_alnum c =
     (let n = cp c in
        between 0x30 0x39 n \<or> between 0x41 0x5A n \<or> between 0x61 0x7A n \<or>
        n = 0xAA \<or> between 0xB2 0xB3 n \<or> n = 0xB5 \<or> between 0xB9 0xBA n \<or>
        between 0xBC 0xBE n \<or> between 0xC0 0xD6 n \<or> between 0xD8 0xF6 n \<or>
        between 0xF8 0xFF n)"

definition is_word :: "char \<Rightarrow> bool" where
  "is_word c = (is_alnum c \<or> c = CHR ''_'')"

text \<open>
  \<open>\s\<close> of a \<open>str\<close> pattern, which is also what \<open>str.strip()\<close> removes: the code points
  that \<open>str.isspace\<close> accepts. Below 256: tab to carriage return, the four separators
  \<open>0x1C..0x1F\<close>, the space, next-line and the no-break space.
\<close>

definition is_space :: "char \<Rightarrow> bool" where
  "is_space c =
     (let n = cp c in between 0x09 0x0D n \<or> between 0x1C 0x20 n \<or> n = 0x85 \<or> n = 0xA0)"

text \<open>
  \<open>str.lower\<close>, code point by code point: below 256 the cased capitals are \<open>A..Z\<close>,
  \<open>0xC0..0xD6\<close> and \<open>0xD8..0xDE\<close>, each 32 below its small letter.
\<close>

definition lower_char :: "char \<Rightarrow> char" where
  "lower_char c =
     (let n = cp c in
        if between 0x41 0x5A n \<or> between 0xC0 0xD6 n \<or> between 0xD8 0xDE n
        then char_of (n + 32) else c)"

definition lower :: "string \<Rightarrow> string" where
  "lower s = map lower_char s"

text \<open>\<open>s.strip()\<close> and \<open>s.strip(chars)\<close>: drop from both ends while the test holds.\<close>

definition strip_while :: "(char \<Rightarrow> bool) \<Rightarrow> string \<Rightarrow> string" where
  "strip_while P s = rev (dropWhile P (rev (dropWhile P s)))"

definition strip :: "string \<Rightarrow> string" where
  "strip s = strip_while is_space s"

definition strip_chars :: "string \<Rightarrow> string \<Rightarrow> string" where
  "strip_chars chars s = strip_while (\<lambda>c. c \<in> set chars) s"

text \<open>
  \<open>s.replace(old, new)\<close>: the occurrences of \<open>old\<close> are found from the left and do not
  overlap; the text put in is not looked at again (\<open>replace_ne\<close>, for a non-empty
  \<open>old\<close>). With an empty \<open>old\<close> Python puts \<open>new\<close> before every character and at the
  end.
\<close>

function replace_ne :: "'a list \<Rightarrow> 'a list \<Rightarrow> 'a list \<Rightarrow> 'a list" where
  "replace_ne old new [] = []"
| "replace_ne old new (c # cs) =
     (if old \<noteq> [] \<and> prefix old (c # cs)
      then new @ replace_ne old new (drop (length old) (c # cs))
      else c # replace_ne old new cs)"
  by pat_completeness auto
termination
  by (relation "measure (\<lambda>(old, new, s). length s)") (auto simp: neq_Nil_conv)

definition str_replace :: "'a list \<Rightarrow> 'a list \<Rightarrow> 'a list \<Rightarrow> 'a list" where
  "str_replace old new s =
     (if old = [] then new @ concat (map (\<lambda>c. c # new) s) else replace_ne old new s)"

text \<open>
  \<open>re.sub(r"[^\w\s-]", "", s)\<close> removes single characters, so it keeps exactly those in
  the complemented class. \<open>re.sub(r"[\s_]+", "-", s)\<close> and \<open>re.sub(r"-+", "-", s)\<close> put
  one hyphen for every maximal run of characters of the class.
\<close>

definition sub_remove_others :: "string \<Rightarrow> string" where
  "sub_remove_others s = filter (\<lambda>c. is_word c \<or> is_space c \<or> c = CHR ''-'') s"

function sub_runs :: "(char \<Rightarrow> bool) \<Rightarrow> string \<Rightarrow> string" where
  "sub_runs P [] = []"
| "sub_runs P (c # cs) =
     (if P c then CHR ''-'' # sub_runs P (dropWhile P cs) else c # sub_runs P cs)"
  by pat_completeness auto
termination
  by (relation "measure (\<lambda>(P, s). length s)") (auto simp: length_dropWhile_le less_Suc_eq_le)

section \<open>slugify\<close>

definition reemplazos :: "(string \<times> string) list" where
  "reemplazos =
     [([CHR 0xE1], ''a''), ([CHR 0xE9], ''e''), ([CHR 0xED], ''i''), ([CHR 0xF3], ''o''),
      ([CHR 0xFA], ''u''),
      ([CHR 0xC1], ''A''), ([CHR 0xC9], ''E''), ([CHR 0xCD], ''I''), ([CHR 0xD3], ''O''),
      ([CHR 0xDA], ''U''),
      ([CHR 0xF1], ''n''), ([CHR 0xD1], ''N''), ([CHR 0xFC], ''u''), ([CHR 0xDC], ''U'')]"

definition quitar_acentos :: "string \<Rightarrow> string" where
  "quitar_acentos texto =
     fold (\<lambda>(original, reemplazo) t. str_replace original reemplazo t) reemplazos texto"

definition slugify :: "string \<Rightarrow> string" where
  "slugify texto =
     (let t1 = quitar_acentos texto;
          t2 = strip (lower t1);
          t3 = sub_remove_others t2;
          t4 = sub_runs (\<lambda>c. is_space c \<or> c = CHR ''_'') t3;
          t5 = sub_runs (\<lambda>c. c = CHR ''-'') t4
      in strip_chars ''-'' t5)"

section \<open>Auxiliary notions for the slug properties\<close>

text \<open>
  The table of \<open>slugify\<close> character by character, the intermediate text before the last
  strip, and the character classes the properties speak about. \<open>spec_slugify\<close> and its
  parts follow the six steps of the specification, each written independently of the
  definitions above: the accents by a case distinction, the runs by a scanner that remembers
  whether it is inside a run, the strips by a fold from the right.
\<close>

definition tabla :: "(char \<times> char) list" where
  "tabla =
     [(CHR 0xE1, CHR ''a''), (CHR 0xE9, CHR ''e''), (CHR 0xED, CHR ''i''), (CHR 0xF3, CHR ''o''),
      (CHR 0xFA, CHR ''u''),
      (CHR 0xC1, CHR ''A''), (CHR 0xC9, CHR ''E''), (CHR 0xCD, CHR ''I''), (CHR 0xD3, CHR ''O''),
      (CHR 0xDA, CHR ''U''),
      (CHR 0xF1, CHR ''n''), (CHR 0xD1, CHR ''N''), (CHR 0xFC, CHR ''u''), (CHR 0xDC, CHR ''U'')]"

definition sin_acento :: "char \<Rightarrow> char" where
  "sin_acento c = (case map_of tabla c of Some r \<Rightarrow> r | None \<Rightarrow> c)"

definition acentuada :: "char \<Rightarrow> bool" where
  "acentuada c = (map_of tabla c \<noteq> None)"

fun doble_guion :: "string \<Rightarrow> bool" where
  "doble_guion [] = False"
| "doble_guion [a] = False"
| "doble_guion (a # b # cs) = ((a = CHR ''-'' \<and> b = CHR ''-'') \<or> doble_guion (b # cs))"

definition colapsado :: "string \<Rightarrow> string" where
  "colapsado texto =
     sub_runs (\<lambda>c. c = CHR ''-'')
       (sub_runs (\<lambda>c. is_space c \<or> c = CHR ''_'')
          (sub_remove_others (strip (lower (quitar_acentos texto)))))"

definition normal_char :: "char \<Rightarrow> char" where
  "normal_char c = lower_char (sin_acento c)"

definition slug_char :: "char \<Rightarrow> bool" where
  "slug_char c = (c = CHR ''-'' \<or> (is_alnum c \<and> lower_char c = c))"

definition is_ascii :: "char \<Rightarrow> bool" where
  "is_ascii c = (cp c < 128)"

definition slug_ascii :: "char \<Rightarrow> bool" where
  "slug_ascii c = (between 0x61 0x7A (cp c) \<or> between 0x30 0x39 (cp c) \<or> c = CHR ''-'')"

fun spec_unaccent :: "char \<Rightarrow> char" where
  "spec_unaccent c =
     (if c = CHR 0xE1 then CHR ''a'' else if c = CHR 0xE9 then CHR ''e''
      else if c = CHR 0xED then CHR ''i'' else if c = CHR 0xF3 then CHR ''o''
      else if c = CHR 0xFA then CHR ''u''
      else if c = CHR 0xC1 then CHR ''A'' else if c = CHR 0xC9 then CHR ''E''
      else if c = CHR 0xCD then CHR ''I'' else if c = CHR 0xD3 then CHR ''O''
      else if c = CHR 0xDA then CHR ''U''
      else if c = CHR 0xF1 then CHR ''n'' else if c = CHR 0xD1 then CHR ''N''
      else if c = CHR 0xFC then CHR ''u'' else if c = CHR 0xDC then CHR ''U''
      else c)"

fun spec_collapse :: "bool \<Rightarrow> (char \<Rightarrow> bool) \<Rightarrow> string \<Rightarrow> string" where
  "spec_collapse in_run P [] = []"
| "spec_collapse in_run P (c # cs) =
     (if P c then (if in_run then spec_collapse True P cs
                   else CHR ''-'' # spec_collapse True P cs)
      else c # spec_collapse False P cs)"

definition spec_rstrip :: "(char \<Rightarrow> bool) \<Rightarrow> string \<Rightarrow> string" where
  "spec_rstrip P s = foldr (\<lambda>c acc. if acc = [] \<and> P c then [] else c # acc) s []"

definition spec_strip :: "(char \<Rightarrow> bool) \<Rightarrow> string \<Rightarrow> string" where
  "spec_strip P s = spec_rstrip P (dropWhile P s)"

definition spec_slugify :: "string \<Rightarrow> string" where
  "spec_slugify texto =
     spec_strip (\<lambda>c. c = CHR ''-'')
       (spec_collapse False (\<lambda>c. c = CHR ''-'')
          (spec_collapse False (\<lambda>c. is_space c \<or> c = CHR ''_'')
             (filter (\<lambda>c. is_word c \<or> is_space c \<or> c = CHR ''-'')
                (spec_strip is_space (map lower_char (map spec_unaccent texto))))))"

section \<open>sustituir_placeholders\<close>

text \<open>
  \<open>f"{{{{{clave}}}}}"\<close> is the key between two opening and two closing braces. The
  dictionary is a list of pairs in insertion order, which is the order \<open>items()\<close> iterates
  in and the order the replacements are made in.
\<close>

definition envolver :: "string \<Rightarrow> string" where
  "envolver clave = ''{{'' @ clave @ ''}}''"

definition sustituir_placeholders :: "string \<Rightarrow> (string \<times> string) list \<Rightarrow> string" where
  "sustituir_placeholders contenido variables =
     fold (\<lambda>(clave, valor) c. str_replace (envolver clave) valor c) variables contenido"

text \<open>A token name: a text without braces.\<close>

definition sin_llaves :: "string \<Rightarrow> bool" where
  "sin_llaves s = (CHR ''{'' \<notin> set s \<and> CHR ''}'' \<notin> set s)"

section \<open>Files, output and failures\<close>

text \<open>
  A path is the list of its components below the root; the root is the empty list. The
  file system maps the paths that exist to a directory or to a text file with its content
  (\<open>read_text\<close> and \<open>write_text\<close> use UTF-8 on both sides, so a file is modelled by the text
  it holds). Permissions and symbolic links are not modelled.
\<close>

type_synonym path = "string list"

datatype node = Dir | File string

type_synonym fs = "path \<rightharpoonup> node"

text \<open>
  \<open>p / name\<close> for a name without a separator: \<open>pathlib\<close> drops an empty segment, so
  \<open>p / ""\<close> is \<open>p\<close>.
\<close>

definition pjoin :: "path \<Rightarrow> string \<Rightarrow> path" where
  "pjoin p name = (if name = [] then p else p @ [name])"

definition buscar :: "fs \<Rightarrow> path \<Rightarrow> node option" where
  "buscar f p = (if p = [] then Some Dir else f p)"

definition existe :: "fs \<Rightarrow> path \<Rightarrow> bool" where
  "existe f p = (buscar f p \<noteq> None)"

definition is_dir :: "fs \<Rightarrow> path \<Rightarrow> bool" where
  "is_dir f p = (buscar f p = Some Dir)"

text \<open>
  What ends a run early: \<open>sys.exit(n)\<close>, or one of the exceptions the file operations and
  the month table can raise (none is caught, so the process ends with a traceback).
\<close>

datatype error =
    SysExit nat
  | FileExistsError
  | FileNotFoundError
  | NotADirectoryError
  | IsADirectoryError
  | KeyError

text \<open>
  The blocks of \<open>print\<close> calls, one constructor for each block with the values it
  formats: the unknown type with the known keys (lines 136-137), the missing template
  directory with the hints to create it and copy the templates (108-114), the missing
  templates (122-125), the existing project directory (165-166), the missing main template
  (179-180) and the final summary (229-249).
\<close>

datatype mensaje =
    ErrorTipoNoReconocido string "string list"
  | ErrorSinDirectorioPlantillas path
  | AdvertenciaFaltanPlantillas path "string list"
  | ErrorDirectorioExiste path
  | AdvertenciaSinPlantilla path
  | ResumenProyecto string string string path string

record mundo =
  archivos :: fs
  salida :: "mensaje list"

type_synonym 'a prog = "mundo \<Rightarrow> (error + 'a) \<times> mundo"

definition bind :: "'a prog \<Rightarrow> ('a \<Rightarrow> 'b prog) \<Rightarrow> 'b prog" where
  "bind m k w = (case m w of (Inl e, w') \<Rightarrow> (Inl e, w') | (Inr x, w') \<Rightarrow> k x w')"

definition ret :: "'a \<Rightarrow> 'a prog" where
  "ret x w = (Inr x, w)"

definition raise :: "error \<Rightarrow> 'a prog" where
  "raise e w = (Inl e, w)"

definition print :: "mensaje \<Rightarrow> unit prog" where
  "print m w = (Inr (), w\<lparr>salida := salida w @ [m]\<rparr>)"

definition sys_exit :: "nat \<Rightarrow> 'a prog" where
  "sys_exit n = raise (SysExit n)"

definition exists :: "path \<Rightarrow> bool prog" where
  "exists p w = (Inr (existe (archivos w) p), w)"

text \<open>
  \<open>os.mkdir\<close>: the path must not exist and its parent must be a directory.
  \<open>Path.mkdir\<close> without \<open>parents\<close> passes \<open>FileNotFoundError\<close> on and forgives another
  failure only with \<open>exist_ok\<close> on a directory; with \<open>parents\<close> it answers
  \<open>FileNotFoundError\<close> by making the parent the same way (with \<open>exist_ok\<close>) and trying
  once more without \<open>parents\<close>.
\<close>

definition os_mkdir :: "fs \<Rightarrow> path \<Rightarrow> error + fs" where
  "os_mkdir f p =
     (if existe f p then Inl FileExistsError
      else case buscar f (butlast p) of
             None \<Rightarrow> Inl FileNotFoundError
           | Some (File t) \<Rightarrow> Inl NotADirectoryError
           | Some Dir \<Rightarrow> Inr (f(p \<mapsto> Dir)))"

definition mkdir_plain :: "bool \<Rightarrow> fs \<Rightarrow> path \<Rightarrow> error + fs" where
  "mkdir_plain exist_ok f p =
     (case os_mkdir f p of
        Inr f' \<Rightarrow> Inr f'
      | Inl FileNotFoundError \<Rightarrow> Inl FileNotFoundError
      | Inl e \<Rightarrow> if \<not> exist_ok \<or> \<not> is_dir f p then Inl e else Inr f)"

function mkdir_parents :: "bool \<Rightarrow> fs \<Rightarrow> path \<Rightarrow> error + fs" where
  "mkdir_parents exist_ok f p =
     (case os_mkdir f p of
        Inr f' \<Rightarrow> Inr f'
      | Inl FileNotFoundError \<Rightarrow>
          if p = [] then Inl FileNotFoundError
          else (case mkdir_parents True f (butlast p) of
                  Inl e \<Rightarrow> Inl e
                | Inr f' \<Rightarrow> mkdir_plain exist_ok f' p)
      | Inl e \<Rightarrow> if \<not> exist_ok \<or> \<not> is_dir f p then Inl e else Inr f)"
  by pat_completeness auto
termination
  by (relation "measure (\<lambda>(exist_ok, f, p). length p)") auto

declare mkdir_parents.simps [simp del]

definition lift_fs :: "(fs \<Rightarrow> error + fs) \<Rightarrow> unit prog" where
  "lift_fs op w =
     (case op (archivos w) of Inl e \<Rightarrow> (Inl e, w) | Inr f' \<Rightarrow> (Inr (), w\<lparr>archivos := f'\<rparr>))"

definition mkdir :: "path \<Rightarrow> bool \<Rightarrow> unit prog" where
  "mkdir p parents =
     lift_fs (\<lambda>f. if parents then mkdir_parents False f p else mkdir_plain False f p)"

text \<open>
  \<open>read_text\<close> needs a file; \<open>write_text\<close> opens for writing, which needs a directory as
  parent and anything but a directory at the path, and replaces the content.
\<close>

definition read_text :: "path \<Rightarrow> string prog" where
  "read_text p w =
     (case buscar (archivos w) p of
        None \<Rightarrow> (Inl FileNotFoundError, w)
      | Some Dir \<Rightarrow> (Inl IsADirectoryError, w)
      | Some (File t) \<Rightarrow> (Inr t, w))"

definition os_write :: "path \<Rightarrow> string \<Rightarrow> fs \<Rightarrow> error + fs" where
  "os_write p t f =
     (if is_dir f p then Inl IsADirectoryError
      else case buscar f (butlast p) of
             None \<Rightarrow> Inl FileNotFoundError
           | Some (File u) \<Rightarrow> Inl NotADirectoryError
           | Some Dir \<Rightarrow> Inr (f(p \<mapsto> File t)))"

definition write_text :: "path \<Rightarrow> string \<Rightarrow> unit prog" where
  "write_text p t = lift_fs (os_write p t)"

section \<open>The program\<close>

text \<open>
  \<open>TEMPLATES_DIR\<close> is read from the environment when the module is loaded; the functions
  below take it as their first argument. \<open>TIPOS\<close> keeps the order of its keys, which the
  error message lists.
\<close>

record info_tipo =
  plantilla :: string
  descripcion :: string
  clase :: string

definition TIPOS_items :: "(string \<times> info_tipo) list" where
  "TIPOS_items =
     [(''art'', \<lparr>plantilla = ''articulo.tex'',
                descripcion = ''Art'' @ [CHR 0xED] @ ''culo (article)'',
                clase = ''article''\<rparr>),
      (''ens'', \<lparr>plantilla = ''ensayo.tex'',
                descripcion = ''Ensayo (report)'',
                clase = ''report''\<rparr>),
      (''pres'', \<lparr>plantilla = ''presentacion.tex'',
                 descripcion = ''Presentaci'' @ [CHR 0xF3] @ ''n (beamer)'',
                 clase = ''beamer''\<rparr>)]"

definition TIPOS :: "string \<rightharpoonup> info_tipo" where
  "TIPOS = map_of TIPOS_items"

definition copiar_plantilla :: "path \<Rightarrow> path \<Rightarrow> (string \<times> string) list \<Rightarrow> unit prog" where
  "copiar_plantilla origen destino variables =
     bind (read_text origen) (\<lambda>contenido.
       write_text destino (sustituir_placeholders contenido variables))"

definition archivos_necesarios :: "string list" where
  "archivos_necesarios =
     [''articulo.tex'', ''ensayo.tex'', ''presentacion.tex'', ''referencias.bib'', ''Makefile'']"

definition verificar_plantillas :: "path \<Rightarrow> unit prog" where
  "verificar_plantillas TEMPLATES_DIR =
     bind (exists TEMPLATES_DIR) (\<lambda>hay.
       if \<not> hay then
         bind (print (ErrorSinDirectorioPlantillas TEMPLATES_DIR)) (\<lambda>_. sys_exit 1)
       else (\<lambda>w.
         let faltantes =
               filter (\<lambda>a. \<not> existe (archivos w) (pjoin TEMPLATES_DIR a)) archivos_necesarios
         in if faltantes \<noteq> []
            then print (AdvertenciaFaltanPlantillas TEMPLATES_DIR faltantes) w
            else ret () w))"

text \<open>
  \<open>datetime.now()\<close> is an argument: day, month and year. \<open>f"{n}"\<close> of a natural number is
  its decimal numeral; the month name comes from the table, and a month outside it would
  raise \<open>KeyError\<close> (a \<open>datetime\<close> never holds one).
\<close>

record fecha_hoy =
  day :: nat
  month :: nat
  year :: nat

definition digito :: "nat \<Rightarrow> char" where
  "digito d = char_of (48 + d)"

function decimal :: "nat \<Rightarrow> string" where
  "decimal n = (if n < 10 then [digito n] else decimal (n div 10) @ [digito (n mod 10)])"
  by pat_completeness auto
termination
  by (relation "measure (\<lambda>n. n)") auto

declare decimal.simps [simp del]

definition meses_es :: "(nat \<times> string) list" where
  "meses_es =
     [(1, ''enero''), (2, ''febrero''), (3, ''marzo''), (4, ''abril''),
      (5, ''mayo''), (6, ''junio''), (7, ''julio''), (8, ''agosto''),
      (9, ''septiembre''), (10, ''octubre''), (11, ''noviembre''), (12, ''diciembre'')]"

definition formatear_fecha :: "fecha_hoy \<Rightarrow> string prog" where
  "formatear_fecha hoy =
     (case map_of meses_es (month hoy) of
        None \<Rightarrow> raise KeyError
      | Some mes \<Rightarrow> ret (decimal (day hoy) @ '' de '' @ mes @ '' de '' @ decimal (year hoy)))"

definition nl :: string where
  "nl = [CHR 0x0A]"

definition bs :: string where
  "bs = [CHR 0x5C]"

definition tex_minimo :: "string \<Rightarrow> string \<Rightarrow> string \<Rightarrow> string \<Rightarrow> string" where
  "tex_minimo cls nombre autor fecha =
     bs @ ''documentclass{'' @ cls @ ''}'' @ nl @
     bs @ ''title{'' @ nombre @ ''}'' @ nl @
     bs @ ''author{'' @ autor @ ''}'' @ nl @
     bs @ ''date{'' @ fecha @ ''}'' @ nl @
     bs @ ''begin{document}'' @ nl @
     bs @ ''maketitle'' @ nl @ nl @
     bs @ ''end{document}'' @ nl"

definition bib_minimo :: string where
  "bib_minimo = ''% Referencias bibliogr'' @ [CHR 0xE1] @ ''ficas'' @ nl"

definition gitignore_contenido :: string where
  "gitignore_contenido =
     concat (map (\<lambda>l. l @ nl)
       [''# LaTeX auxiliares'', ''*.aux'', ''*.bbl'', ''*.bcf'', ''*.blg'', ''*.log'',
        ''*.nav'', ''*.out'', ''*.run.xml'', ''*.snm'', ''*.toc'', ''*.vrb'',
        ''*.fdb_latexmk'', ''*.fls'', ''*.synctex.gz'', '''',
        ''# PDF generado (descomenta si no quieres versionarlo)'', ''# *.pdf''])"

text \<open>
  \<open>crear_proyecto\<close> in two parts. \<open>materializar\<close> is its body from line 169 on, after
  the target directory has been found free: the two directories, the main document from its
  template or the minimal one, the bibliography from its template or the stub, the build
  file only from its template, the ignore file, and the summary. \<open>crear_proyecto\<close> itself
  is lines 135-167: the type, the templates, the slug, the date and the variables, and the
  refusal of an existing target.
\<close>

definition materializar ::
  "path \<Rightarrow> info_tipo \<Rightarrow> string \<Rightarrow> string \<Rightarrow> string \<Rightarrow> string \<Rightarrow>
   (string \<times> string) list \<Rightarrow> path \<Rightarrow> unit prog" where
  "materializar TEMPLATES_DIR info nombre autor fecha slug variables dir_proyecto =
     bind (mkdir dir_proyecto True) (\<lambda>_.
     bind (mkdir (pjoin dir_proyecto ''figuras'') False) (\<lambda>_.
     let plantilla_origen = pjoin TEMPLATES_DIR (plantilla info);
         archivo_tex = pjoin dir_proyecto (slug @ ''.tex'')
     in
     bind (bind (exists plantilla_origen) (\<lambda>hay.
             if hay then copiar_plantilla plantilla_origen archivo_tex variables
             else bind (print (AdvertenciaSinPlantilla plantilla_origen)) (\<lambda>_.
                    write_text archivo_tex (tex_minimo (clase info) nombre autor fecha)))) (\<lambda>_.
     let bib_origen = pjoin TEMPLATES_DIR ''referencias.bib'' in
     bind (bind (exists bib_origen) (\<lambda>hay.
             if hay then copiar_plantilla bib_origen (pjoin dir_proyecto ''referencias.bib'') variables
             else write_text (pjoin dir_proyecto ''referencias.bib'') bib_minimo)) (\<lambda>_.
     let makefile_origen = pjoin TEMPLATES_DIR ''Makefile'' in
     bind (bind (exists makefile_origen) (\<lambda>hay.
             if hay then copiar_plantilla makefile_origen (pjoin dir_proyecto ''Makefile'') variables
             else ret ())) (\<lambda>_.
     bind (write_text (pjoin dir_proyecto ''.gitignore'') gitignore_contenido) (\<lambda>_.
     print (ResumenProyecto (descripcion info) nombre autor dir_proyecto slug)))))))"

definition crear_proyecto ::
  "path \<Rightarrow> fecha_hoy \<Rightarrow> string \<Rightarrow> string \<Rightarrow> string \<Rightarrow> path \<Rightarrow> unit prog" where
  "crear_proyecto TEMPLATES_DIR hoy nombre tipo autor directorio_base =
     (case TIPOS tipo of
        None \<Rightarrow>
          bind (print (ErrorTipoNoReconocido tipo (map fst TIPOS_items))) (\<lambda>_. sys_exit 1)
      | Some info \<Rightarrow>
          bind (verificar_plantillas TEMPLATES_DIR) (\<lambda>_.
          let slug = slugify nombre in
          bind (formatear_fecha hoy) (\<lambda>fecha.
          let variables = [(''TITULO'', nombre), (''AUTOR'', autor), (''FECHA'', fecha),
                           (''NOMBRE_ARCHIVO'', slug)];
              dir_proyecto = pjoin directorio_base slug
          in
          bind (exists dir_proyecto) (\<lambda>hay.
            if hay then
              bind (print (ErrorDirectorioExiste dir_proyecto)) (\<lambda>_. sys_exit 1)
            else materializar TEMPLATES_DIR info nombre autor fecha slug variables
                   dir_proyecto))))"

section \<open>Auxiliary notions for the file properties\<close>

text \<open>
  \<open>crece f f'\<close>: \<open>f'\<close> is \<open>f\<close> with new directories added and nothing else changed.
  \<open>conserva m\<close>: whatever \<open>m\<close> does, every path that existed before exists afterwards.
\<close>

definition crece :: "fs \<Rightarrow> fs \<Rightarrow> bool" where
  "crece f f' =
     (\<forall>q. (f q \<noteq> None \<longrightarrow> f' q = f q) \<and> (f q = None \<longrightarrow> f' q = None \<or> f' q = Some Dir))"

definition conserva :: "'a prog \<Rightarrow> bool" where
  "conserva m =
     (\<forall>w r w'. m w = (r, w') \<longrightarrow> (\<forall>q. existe (archivos w) q \<longrightarrow> existe (archivos w') q))"

text \<open>
  The three conditional steps of the materialisation, named so that a run can be followed
  step by step: the main document (lines 176-190), the bibliography (194-199) and the
  build file (203-204).
\<close>

definition paso_tex :: "path \<Rightarrow> path \<Rightarrow> (string \<times> string) list \<Rightarrow> string \<Rightarrow> unit prog" where
  "paso_tex origen destino variables minimo =
     bind (exists origen) (\<lambda>hay.
       if hay then copiar_plantilla origen destino variables
       else bind (print (AdvertenciaSinPlantilla origen)) (\<lambda>_. write_text destino minimo))"

definition paso_bib :: "path \<Rightarrow> path \<Rightarrow> (string \<times> string) list \<Rightarrow> unit prog" where
  "paso_bib origen destino variables =
     bind (exists origen) (\<lambda>hay.
       if hay then copiar_plantilla origen destino variables
       else write_text destino bib_minimo)"

definition paso_makefile :: "path \<Rightarrow> path \<Rightarrow> (string \<times> string) list \<Rightarrow> unit prog" where
  "paso_makefile origen destino variables =
     bind (exists origen) (\<lambda>hay.
       if hay then copiar_plantilla origen destino variables else ret ())"

text \<open>
  A small world for the examples: a template directory without any template, an empty
  directory for the projects, and a date.
\<close>

definition mundo_ejemplo :: mundo where
  "mundo_ejemplo =
     \<lparr>archivos = [[''plantillas''] \<mapsto> Dir, [''proyectos''] \<mapsto> Dir], salida = []\<rparr>"

definition hoy_ejemplo :: fecha_hoy where
  "hoy_ejemplo = \<lparr>day = 6, month = 11, year = 2026\<rparr>"

definition titulo_ejemplo :: string where
  "titulo_ejemplo = ''Mi art'' @ [CHR 0xED] @ ''culo''"

section \<open>Properties of slugify\<close>

lemma replace_ne_single:
  "replace_ne [a] [b] s = map (\<lambda>c. if c = a then b else c) s"
  by (induction s) auto

lemma str_replace_single:
  "str_replace [a] [b] s = map (\<lambda>c. if c = a then b else c) s"
  by (simp add: str_replace_def replace_ne_single)

lemma reemplazos_tabla: "reemplazos = map (\<lambda>(a, b). ([a], [b])) tabla"
  by (simp add: reemplazos_def tabla_def)

lemma fold_single_replace:
  "fold (\<lambda>(original, reemplazo) t. str_replace original reemplazo t)
        (map (\<lambda>(a, b). ([a], [b])) ps) s
   = map (fold (\<lambda>(a, b) c. if c = a then b else c) ps) s"
  by (induction ps arbitrary: s) (auto simp: str_replace_single comp_def)

lemma fold_tabla: "fold (\<lambda>(a, b) c. if c = a then b else c) tabla c = sin_acento c"
  by (simp add: tabla_def sin_acento_def)

lemma quitar_acentos_map: "quitar_acentos s = map sin_acento s"
  by (simp add: quitar_acentos_def reemplazos_tabla fold_single_replace fold_tabla)

lemma char_eq_cp: "(c = d) = (cp c = cp d)"
  by simp

lemma acentuada_cp:
  "acentuada c =
     (cp c \<in> {0xE1, 0xE9, 0xED, 0xF3, 0xFA, 0xC1, 0xC9, 0xCD, 0xD3, 0xDA, 0xF1, 0xD1, 0xFC, 0xDC})"
  by (auto simp add: acentuada_def tabla_def char_eq_cp [of c] simp del: of_char_eq_iff)

lemma sin_acento_no_acentuada: "\<not> acentuada (sin_acento c)"
  by (auto simp: sin_acento_def tabla_def acentuada_def)

lemma sin_acento_id: "\<not> acentuada c \<Longrightarrow> sin_acento c = c"
  by (auto simp: sin_acento_def acentuada_def split: option.splits)

lemma lower_char_no_acentuada: "\<not> acentuada c \<Longrightarrow> \<not> acentuada (lower_char c)"
  using nat_of_char_less_256 [of c]
  by (auto simp: acentuada_cp lower_char_def between_def Let_def)

lemma is_alnum_sin_acento: "is_alnum (sin_acento c) = is_alnum c"
  by (auto simp: sin_acento_def tabla_def is_alnum_def between_def)

lemma is_alnum_lower_char: "is_alnum (lower_char c) = is_alnum c"
  using nat_of_char_less_256 [of c]
  by (auto simp: lower_char_def is_alnum_def between_def Let_def)

lemma lower_char_idem: "lower_char (lower_char c) = lower_char c"
  using nat_of_char_less_256 [of c]
  by (auto simp: lower_char_def between_def Let_def)

lemma alnum_not_space: "is_alnum c \<Longrightarrow> \<not> is_space c"
  by (auto simp: is_alnum_def is_space_def between_def Let_def)

lemma alnum_not_hyphen: "is_alnum c \<Longrightarrow> c \<noteq> CHR ''-''"
  by (auto simp: is_alnum_def between_def Let_def)

lemma alnum_not_underscore: "is_alnum c \<Longrightarrow> c \<noteq> CHR ''_''"
  by (auto simp: is_alnum_def between_def Let_def)

lemma hyphen_not_space: "\<not> is_space CHR ''-''"
  by (simp add: is_space_def between_def)

lemma set_strip_while: "set (strip_while P s) \<subseteq> set s"
  unfolding strip_while_def
  by (metis set_dropWhileD set_rev subsetI)

lemma sublist_strip_while: "sublist (strip_while P s) s"
proof -
  have "suffix (dropWhile P (rev (dropWhile P s))) (rev (dropWhile P s))"
    by (rule suffix_dropWhile)
  then have "prefix (strip_while P s) (dropWhile P s)"
    by (simp add: strip_while_def suffix_to_prefix)
  then have "sublist (strip_while P s) (dropWhile P s)"
    by (rule prefix_imp_sublist)
  moreover have "sublist (dropWhile P s) s"
    by (rule sublist_dropWhile)
  ultimately show ?thesis
    by (rule sublist_order.order.trans)
qed

lemma in_dropWhile: "x \<in> set s \<Longrightarrow> \<not> P x \<Longrightarrow> x \<in> set (dropWhile P s)"
  by (induction s) auto

lemma in_strip_while: "x \<in> set s \<Longrightarrow> \<not> P x \<Longrightarrow> x \<in> set (strip_while P s)"
  by (simp add: strip_while_def in_dropWhile)

lemma strip_while_hd: "strip_while P s = x # xs \<Longrightarrow> \<not> P x"
proof -
  assume h: "strip_while P s = x # xs"
  have "x \<in> set (strip_while P s)" using h by simp
  have "prefix (strip_while P s) (dropWhile P s)"
    using suffix_dropWhile [of P "rev (dropWhile P s)"]
    by (simp add: strip_while_def suffix_to_prefix)
  then obtain zs where "dropWhile P s = x # zs"
    using h by (auto simp: prefix_def)
  then show ?thesis
    by (metis hd_dropWhile list.sel(1) list.distinct(1))
qed

lemma strip_while_last: "strip_while P s = xs @ [x] \<Longrightarrow> \<not> P x"
proof -
  assume h: "strip_while P s = xs @ [x]"
  then have "dropWhile P (rev (dropWhile P s)) = x # rev xs"
    by (simp add: strip_while_def rev_swap)
  then show ?thesis
    by (metis hd_dropWhile list.sel(1) list.distinct(1))
qed

lemma strip_while_all: "\<forall>x\<in>set s. P x \<Longrightarrow> strip_while P s = []"
proof -
  assume "\<forall>x\<in>set s. P x"
  then have "dropWhile P s = []" by simp
  then show ?thesis by (simp only: strip_while_def rev.simps dropWhile.simps)
qed

lemma strip_while_id:
  "s = [] \<or> (\<not> P (hd s) \<and> \<not> P (last s)) \<Longrightarrow> strip_while P s = s"
proof (cases s)
  case Nil
  then show ?thesis by (simp add: strip_while_def)
next
  case (Cons a as)
  assume "s = [] \<or> (\<not> P (hd s) \<and> \<not> P (last s))"
  with Cons have a: "\<not> P a" and l: "\<not> P (last s)" by auto
  have "dropWhile P s = s" using a Cons by simp
  moreover have "dropWhile P (rev s) = rev s"
    using l by (simp add: dropWhile_eq_self_iff hd_rev)
  ultimately show ?thesis by (simp add: strip_while_def)
qed

lemma set_sub_runs: "set (sub_runs P s) \<subseteq> {c \<in> set s. \<not> P c} \<union> {CHR ''-''}"
proof (induction P s rule: sub_runs.induct)
  case (1 P)
  then show ?case by simp
next
  case (2 P c cs)
  show ?case
  proof (cases "P c")
    case True
    with 2 have "set (sub_runs P (dropWhile P cs)) \<subseteq> {c \<in> set (dropWhile P cs). \<not> P c} \<union> {CHR ''-''}"
      by simp
    moreover have "set (dropWhile P cs) \<subseteq> set cs"
      by (meson set_dropWhileD subsetI)
    ultimately show ?thesis using True by auto
  next
    case False
    with 2 show ?thesis by auto
  qed
qed

lemma in_sub_runs: "x \<in> set s \<Longrightarrow> \<not> P x \<Longrightarrow> x \<in> set (sub_runs P s)"
proof (induction P s rule: sub_runs.induct)
  case (1 P)
  then show ?case by simp
next
  case (2 P c cs)
  show ?case
  proof (cases "P c")
    case True
    with 2 have "x \<in> set cs" by auto
    then have "x \<in> set (dropWhile P cs)" using 2 by (simp add: in_dropWhile)
    with 2 True show ?thesis by simp
  next
    case False
    with 2 show ?thesis by auto
  qed
qed

lemma sub_runs_none: "\<forall>x\<in>set s. \<not> P x \<Longrightarrow> sub_runs P s = s"
  by (induction s) auto

lemma sub_runs_guion_Cons:
  "sub_runs (\<lambda>c. c = CHR ''-'') (c # cs) =
     (if c = CHR ''-'' then CHR ''-'' # sub_runs (\<lambda>c. c = CHR ''-'') (dropWhile (\<lambda>c. c = CHR ''-'') cs)
      else c # sub_runs (\<lambda>c. c = CHR ''-'') cs)"
  by simp

lemma dropWhile_guion_cases:
  "dropWhile (\<lambda>c. c = CHR ''-'') cs = [] \<or>
   (\<exists>d ds. dropWhile (\<lambda>c. c = CHR ''-'') cs = d # ds \<and> d \<noteq> CHR ''-'')"
  by (induction cs) auto

lemma no_doble_guion_sub_runs: "\<not> doble_guion (sub_runs (\<lambda>c. c = CHR ''-'') s)"
proof (induction s rule: length_induct)
  case (1 s)
  show ?case
  proof (cases s)
    case Nil
    then show ?thesis by simp
  next
    case (Cons c cs)
    show ?thesis
    proof (cases "c = CHR ''-''")
      case True
      let ?r = "dropWhile (\<lambda>c. c = CHR ''-'') cs"
      have e: "sub_runs (\<lambda>c. c = CHR ''-'') s = CHR ''-'' # sub_runs (\<lambda>c. c = CHR ''-'') ?r"
        unfolding Cons sub_runs_guion_Cons using True by (rule if_P)
      have "length ?r < length s"
        unfolding Cons using length_dropWhile_le [of "\<lambda>c. c = CHR ''-''" cs] by simp
      then have ih: "\<not> doble_guion (sub_runs (\<lambda>c. c = CHR ''-'') ?r)"
        using 1 by blast
      from dropWhile_guion_cases [of cs] show ?thesis
      proof
        assume n: "?r = []"
        have "\<not> doble_guion [CHR ''-'']" by simp
        then show ?thesis unfolding e n sub_runs.simps(1) .
      next
        assume "\<exists>d ds. ?r = d # ds \<and> d \<noteq> CHR ''-''"
        then obtain d ds where r: "?r = d # ds" and d: "d \<noteq> CHR ''-''" by blast
        have "\<not> doble_guion (sub_runs (\<lambda>c. c = CHR ''-'') (d # ds))"
          using ih unfolding r .
        then have "\<not> doble_guion (CHR ''-'' # sub_runs (\<lambda>c. c = CHR ''-'') (d # ds))"
          unfolding sub_runs_guion_Cons [of d ds] using d by simp
        then show ?thesis unfolding e r .
      qed
    next
      case False
      have "length cs < length s" unfolding Cons by simp
      then have ih: "\<not> doble_guion (sub_runs (\<lambda>c. c = CHR ''-'') cs)"
        using 1 by blast
      have e: "sub_runs (\<lambda>c. c = CHR ''-'') s = c # sub_runs (\<lambda>c. c = CHR ''-'') cs"
        unfolding Cons sub_runs_guion_Cons using False by (rule if_not_P)
      show ?thesis unfolding e using False ih
        by (cases "sub_runs (\<lambda>c. c = CHR ''-'') cs") simp_all
    qed
  qed
qed

lemma sub_runs_guion_id: "\<not> doble_guion s \<Longrightarrow> sub_runs (\<lambda>c. c = CHR ''-'') s = s"
proof (induction s)
  case Nil
  then show ?case by simp
next
  case (Cons a s)
  then show ?case by (cases s) auto
qed

lemma doble_guion_sublist: "doble_guion s \<longleftrightarrow> sublist ''--'' s"
proof (induction s rule: doble_guion.induct)
  case 1
  then show ?case by simp
next
  case (2 a)
  then show ?case by (auto simp: sublist_Cons_right)
next
  case (3 a b cs)
  then show ?case by (auto simp: sublist_Cons_right [of _ a])
qed

lemma slugify_colapsado: "slugify s = strip_chars ''-'' (colapsado s)"
  by (simp add: slugify_def colapsado_def Let_def)

lemma set_colapsado:
  "set (colapsado s) \<subseteq> {CHR ''-''} \<union> normal_char ` {x \<in> set s. is_alnum x}"
proof
  fix c
  assume c: "c \<in> set (colapsado s)"
  let ?t2 = "strip (lower (quitar_acentos s))"
  let ?t3 = "sub_remove_others ?t2"
  let ?t4 = "sub_runs (\<lambda>c. is_space c \<or> c = CHR ''_'') ?t3"
  show "c \<in> {CHR ''-''} \<union> normal_char ` {x \<in> set s. is_alnum x}"
  proof (cases "c = CHR ''-''")
    case True
    then show ?thesis by simp
  next
    case False
    from c have "c \<in> set ?t4"
      using set_sub_runs [of "\<lambda>c. c = CHR ''-''" ?t4] False
      by (auto simp: colapsado_def)
    then have c3: "c \<in> set ?t3" and ns: "\<not> is_space c" and nu: "c \<noteq> CHR ''_''"
      using set_sub_runs [of "\<lambda>c. is_space c \<or> c = CHR ''_''" ?t3] False by auto
    from c3 have c2: "c \<in> set ?t2" and k: "is_word c \<or> is_space c \<or> c = CHR ''-''"
      by (auto simp: sub_remove_others_def)
    from k ns nu False have al: "is_alnum c"
      by (simp add: is_word_def)
    from c2 have "c \<in> set (lower (quitar_acentos s))"
      using set_strip_while [of is_space "lower (quitar_acentos s)"] by (auto simp: strip_def)
    then obtain x where x: "x \<in> set s" and cx: "c = normal_char x"
      by (auto simp: lower_def quitar_acentos_map normal_char_def)
    from al cx have "is_alnum x"
      by (simp add: normal_char_def is_alnum_lower_char is_alnum_sin_acento)
    with x cx show ?thesis by blast
  qed
qed

lemma set_slugify:
  "set (slugify s) \<subseteq> {CHR ''-''} \<union> normal_char ` {x \<in> set s. is_alnum x}"
  using set_strip_while [of "\<lambda>c. c \<in> set ''-''" "colapsado s"] set_colapsado [of s]
  unfolding slugify_colapsado strip_chars_def by blast

lemma alnum_in_slugify:
  assumes "x \<in> set s" and "is_alnum x"
  shows "normal_char x \<in> set (slugify s)"
proof -
  let ?c = "normal_char x"
  have al: "is_alnum ?c"
    using assms by (simp add: normal_char_def is_alnum_lower_char is_alnum_sin_acento)
  have "?c \<in> set (lower (quitar_acentos s))"
    using assms by (auto simp: lower_def quitar_acentos_map normal_char_def)
  then have "?c \<in> set (strip (lower (quitar_acentos s)))"
    using al by (simp add: strip_def in_strip_while alnum_not_space)
  then have "?c \<in> set (sub_remove_others (strip (lower (quitar_acentos s))))"
    using al by (simp add: sub_remove_others_def is_word_def)
  then have "?c \<in> set (sub_runs (\<lambda>c. is_space c \<or> c = CHR ''_'')
                 (sub_remove_others (strip (lower (quitar_acentos s)))))"
  proof (rule in_sub_runs)
    show "\<not> (is_space ?c \<or> ?c = CHR ''_'')"
      using al alnum_not_space alnum_not_underscore by blast
  qed
  then have "?c \<in> set (colapsado s)"
    unfolding colapsado_def
  proof (rule in_sub_runs)
    show "?c \<noteq> CHR ''-''" using al by (rule alnum_not_hyphen)
  qed
  then have "?c \<in> set (strip_while (\<lambda>c. c \<in> set ''-'') (colapsado s))"
  proof (rule in_strip_while)
    show "\<not> ?c \<in> set ''-''" using al alnum_not_hyphen by auto
  qed
  then show ?thesis
    by (simp only: slugify_colapsado strip_chars_def)
qed

lemma slugify_empty_iff: "slugify s = [] \<longleftrightarrow> \<not> list_ex is_alnum s"
proof
  assume e: "slugify s = []"
  show "\<not> list_ex is_alnum s"
  proof
    assume "list_ex is_alnum s"
    then obtain x where "x \<in> set s" "is_alnum x" by (auto simp: list_ex_iff)
    then have "normal_char x \<in> set (slugify s)" by (rule alnum_in_slugify)
    with e show False by simp
  qed
next
  assume "\<not> list_ex is_alnum s"
  then have "{x \<in> set s. is_alnum x} = {}" by (auto simp: list_ex_iff)
  then have "set (colapsado s) \<subseteq> {CHR ''-''}" using set_colapsado [of s] by auto
  then have "\<forall>c\<in>set (colapsado s). c \<in> set ''-''" by auto
  then show "slugify s = []"
    unfolding slugify_colapsado strip_chars_def by (rule strip_while_all)
qed

lemma slugify_no_prefix: "\<not> prefix ''-'' (slugify s)"
proof
  assume "prefix ''-'' (slugify s)"
  then obtain xs where "slugify s = CHR ''-'' # xs" by (auto simp: prefix_def)
  then have "strip_while (\<lambda>c. c \<in> set ''-'') (colapsado s) = CHR ''-'' # xs"
    by (simp add: slugify_colapsado strip_chars_def)
  then have "\<not> CHR ''-'' \<in> set ''-''" by (rule strip_while_hd)
  then show False by simp
qed

lemma slugify_no_suffix: "\<not> suffix ''-'' (slugify s)"
proof
  assume "suffix ''-'' (slugify s)"
  then obtain xs where "slugify s = xs @ [CHR ''-'']" by (auto simp: suffix_def)
  then have "strip_while (\<lambda>c. c \<in> set ''-'') (colapsado s) = xs @ [CHR ''-'']"
    by (simp add: slugify_colapsado strip_chars_def)
  then have "\<not> CHR ''-'' \<in> set ''-''" by (rule strip_while_last)
  then show False by simp
qed

lemma slugify_no_doble: "\<not> sublist ''--'' (slugify s)"
proof
  assume "sublist ''--'' (slugify s)"
  moreover have "sublist (slugify s) (colapsado s)"
    unfolding slugify_colapsado strip_chars_def by (rule sublist_strip_while)
  ultimately have "sublist ''--'' (colapsado s)" by (rule sublist_order.order.trans)
  then have "doble_guion (colapsado s)" by (simp add: doble_guion_sublist)
  then show False unfolding colapsado_def using no_doble_guion_sub_runs by blast
qed

lemma normal_char_fixed:
  "sin_acento (normal_char x) = normal_char x" "lower_char (normal_char x) = normal_char x"
  by (simp_all add: normal_char_def lower_char_idem sin_acento_id
        lower_char_no_acentuada sin_acento_no_acentuada)

lemma hyphen_fixed: "sin_acento CHR ''-'' = CHR ''-''" "lower_char CHR ''-'' = CHR ''-''"
  by (simp_all add: sin_acento_def tabla_def lower_char_def between_def)

lemma slugify_fixed:
  assumes chars: "\<forall>c\<in>set t. c = CHR ''-'' \<or> (is_alnum c \<and> sin_acento c = c \<and> lower_char c = c)"
    and np: "\<not> prefix ''-'' t" and ns: "\<not> suffix ''-'' t" and nd: "\<not> sublist ''--'' t"
  shows "slugify t = t"
proof -
  have fx: "\<forall>c\<in>set t. lower_char (sin_acento c) = c"
    using chars hyphen_fixed by metis
  have "map (lower_char \<circ> sin_acento) t = t"
    using fx by (intro map_idI) simp
  then have t1: "lower (quitar_acentos t) = t"
    by (simp add: lower_def quitar_acentos_map)
  have nsp: "\<forall>c\<in>set t. \<not> (is_space c \<or> c = CHR ''_'')"
    using chars alnum_not_space alnum_not_underscore hyphen_not_space by fastforce
  have "t = [] \<or> (\<not> is_space (hd t) \<and> \<not> is_space (last t))"
    using nsp by (metis hd_in_set last_in_set)
  then have t2: "strip t = t"
    unfolding strip_def by (rule strip_while_id)
  have "\<forall>c\<in>set t. is_word c \<or> is_space c \<or> c = CHR ''-''"
    using chars by (auto simp: is_word_def)
  then have t3: "sub_remove_others t = t"
    unfolding sub_remove_others_def by (rule filter_True)
  have t4: "sub_runs (\<lambda>c. is_space c \<or> c = CHR ''_'') t = t"
    using nsp by (rule sub_runs_none)
  have "\<not> doble_guion t"
    using nd by (simp add: doble_guion_sublist)
  then have t5: "sub_runs (\<lambda>c. c = CHR ''-'') t = t"
    by (rule sub_runs_guion_id)
  have edges: "t = [] \<or> (\<not> hd t \<in> set ''-'' \<and> \<not> last t \<in> set ''-'')"
  proof (cases "t = []")
    case True
    then show ?thesis by simp
  next
    case False
    have "hd t \<noteq> CHR ''-''"
      using np False by (cases t) (auto simp: prefix_def)
    moreover have "last t \<noteq> CHR ''-''"
      using ns False by (metis append_butlast_last_id suffix_def)
    ultimately show ?thesis by simp
  qed
  have t6: "strip_chars ''-'' t = t"
    unfolding strip_chars_def using edges by (rule strip_while_id)
  show ?thesis
    unfolding slugify_def Let_def t1 t2 t3 t4 t5 t6 ..
qed

lemma spec_unaccent_sin_acento: "spec_unaccent = sin_acento"
  by (rule ext) (simp add: sin_acento_def tabla_def)

lemma spec_collapse_True: "spec_collapse True P s = spec_collapse False P (dropWhile P s)"
  by (induction s) auto

lemma spec_collapse_sub_runs: "spec_collapse False P s = sub_runs P s"
  by (induction P s rule: sub_runs.induct) (auto simp: spec_collapse_True)

lemma spec_rstrip_snoc:
  "spec_rstrip P (s @ [c]) = (if P c then spec_rstrip P s else s @ [c])"
  by (induction s) (auto simp: spec_rstrip_def)

lemma spec_rstrip_rev: "spec_rstrip P s = rev (dropWhile P (rev s))"
  by (induction s rule: rev_induct) (auto simp: spec_rstrip_snoc, simp add: spec_rstrip_def)

lemma spec_strip_strip_while: "spec_strip P s = strip_while P s"
  by (simp add: spec_strip_def strip_while_def spec_rstrip_rev)

lemma normal_ascii:
  assumes "is_ascii x \<or> acentuada x" and "is_alnum x"
  shows "slug_ascii (normal_char x)"
proof (cases "acentuada x")
  case True
  then show ?thesis
    by (auto simp: acentuada_def tabla_def normal_char_def sin_acento_def lower_char_def
          slug_ascii_def between_def split: if_splits)
next
  case False
  then have "normal_char x = lower_char x"
    by (simp add: normal_char_def sin_acento_id)
  moreover have "is_ascii x" using assms False by simp
  ultimately show ?thesis
    using assms(2)
    by (auto simp: is_ascii_def is_alnum_def lower_char_def slug_ascii_def between_def Let_def)
qed

lemma slug_char_normal: "is_alnum x \<Longrightarrow> slug_char (normal_char x)"
  using normal_char_fixed [of x]
  by (simp add: slug_char_def normal_char_def is_alnum_lower_char is_alnum_sin_acento)

text \<open>
  C1 (amended). For every input, the slug consists of hyphens and of alphanumeric characters
  that \<open>lower\<close> leaves unchanged (never an underscore), has no leading hyphen, no trailing
  hyphen and no two hyphens in a row, and is empty exactly when the input has no alphanumeric
  character. When every character of the input is ASCII or one of the fourteen accented
  letters of the table, the slug contains only \<open>a..z\<close>, \<open>0..9\<close> and hyphens.
\<close>

theorem slugify_formato:
  "list_all slug_char (slugify s) \<and>
   \<not> prefix ''-'' (slugify s) \<and> \<not> suffix ''-'' (slugify s) \<and> \<not> sublist ''--'' (slugify s) \<and>
   (slugify s = [] \<longleftrightarrow> \<not> list_ex is_alnum s) \<and>
   (list_all (\<lambda>c. is_ascii c \<or> acentuada c) s \<longrightarrow> list_all slug_ascii (slugify s))"
proof -
  have a: "list_all slug_char (slugify s)"
    using set_slugify [of s] slug_char_normal
    by (auto simp: list_all_iff slug_char_def)
  have b: "list_all slug_ascii (slugify s)" if h: "list_all (\<lambda>c. is_ascii c \<or> acentuada c) s"
  proof -
    have "slug_ascii c" if c: "c \<in> set (slugify s)" for c
    proof (cases "c = CHR ''-''")
      case True
      then show ?thesis by (simp add: slug_ascii_def)
    next
      case False
      with c set_slugify [of s] obtain x
        where "x \<in> set s" and "is_alnum x" and cx: "c = normal_char x" by blast
      moreover from this h have "is_ascii x \<or> acentuada x" by (simp add: list_all_iff)
      ultimately show ?thesis using normal_ascii by simp
    qed
    then show ?thesis by (simp add: list_all_iff)
  qed
  show ?thesis
    using a b slugify_no_prefix slugify_no_suffix slugify_no_doble slugify_empty_iff
    by blast
qed

text \<open>The title of the specification's example satisfies the hypothesis of C1.\<close>

theorem slugify_formato_witness:
  "list_all (\<lambda>c. is_ascii c \<or> acentuada c) (''  Mi --- art'' @ [CHR 0xED] @ ''culo!!  '') \<and>
   slugify (''  Mi --- art'' @ [CHR 0xED] @ ''culo!!  '') = ''mi-articulo'' \<and>
   list_all slug_ascii ''mi-articulo'' \<and> list_all slug_char ''mi-articulo''"
proof -
  let ?s = "''  Mi --- art'' @ [CHR 0xED] @ ''culo!!  ''"
  have h: "list_all (\<lambda>c. is_ascii c \<or> acentuada c) ?s"
    by (simp add: is_ascii_def acentuada_def tabla_def)
  have e: "slugify ?s = ''mi-articulo''"
    by code_simp
  from slugify_formato [of ?s] h e show ?thesis
    by simp
qed

text \<open>
  C1 as stated fails: \<open>\w\<close> accepts every letter, and a letter outside the table, such as
  c with cedilla (\<open>0xE7\<close>), passes through \<open>slugify\<close> unchanged.
\<close>

theorem slugify_ascii_counterexample:
  "\<not> list_all slug_ascii (slugify [CHR 0xE7])"
proof -
  have "slugify [CHR 0xE7] = [CHR 0xE7]"
    by code_simp
  then show ?thesis
    by (simp add: slug_ascii_def between_def)
qed

text \<open>
  C6. \<open>slugify\<close> computes what the six steps of the specification describe: the accented
  letters of the table are replaced by their unaccented letters (case kept) before the text
  is lowercased, then the characters that are neither word characters, spaces nor hyphens are
  removed, runs of spaces and underscores and runs of hyphens become single hyphens, and the
  hyphens at the edges are stripped. The two examples evaluate as the specification says.
\<close>

theorem slugify_refines_spec:
  "slugify s = spec_slugify s \<and>
   slugify (CHR 0xC9 # ''tica en IA'') = ''etica-en-ia'' \<and>
   slugify (''  Mi --- art'' @ [CHR 0xED] @ ''culo!!  '') = ''mi-articulo''"
proof -
  have "slugify s = spec_slugify s"
    by (simp add: slugify_def spec_slugify_def Let_def spec_strip_strip_while
          spec_collapse_sub_runs strip_def strip_chars_def sub_remove_others_def lower_def
          quitar_acentos_map spec_unaccent_sin_acento del: spec_unaccent.simps)
  moreover have "slugify (CHR 0xC9 # ''tica en IA'') = ''etica-en-ia''"
    by code_simp
  moreover have "slugify (''  Mi --- art'' @ [CHR 0xED] @ ''culo!!  '') = ''mi-articulo''"
    by code_simp
  ultimately show ?thesis by simp
qed

theorem slugify_refines_spec_witness:
  "spec_slugify (CHR 0xC9 # ''tica en IA'') = ''etica-en-ia''"
proof -
  let ?s = "CHR 0xC9 # ''tica en IA''"
  from slugify_refines_spec [of ?s]
  have a: "slugify ?s = spec_slugify ?s" and b: "slugify ?s = ''etica-en-ia''"
    by blast+
  show ?thesis unfolding a [symmetric] by (rule b)
qed

text \<open>C9. \<open>slugify\<close> is idempotent: a slug is a fixed point of the pipeline.\<close>

theorem slugify_idempotente: "slugify (slugify s) = slugify s"
proof (rule slugify_fixed)
  show "\<forall>c\<in>set (slugify s).
          c = CHR ''-'' \<or> (is_alnum c \<and> sin_acento c = c \<and> lower_char c = c)"
  proof
    fix c
    assume c: "c \<in> set (slugify s)"
    show "c = CHR ''-'' \<or> (is_alnum c \<and> sin_acento c = c \<and> lower_char c = c)"
    proof (cases "c = CHR ''-''")
      case True
      then show ?thesis by simp
    next
      case False
      with c set_slugify [of s] obtain x where "is_alnum x" and "c = normal_char x" by blast
      then show ?thesis
        using normal_char_fixed [of x]
        by (simp add: normal_char_def is_alnum_lower_char is_alnum_sin_acento)
    qed
  qed
  show "\<not> prefix ''-'' (slugify s)" by (rule slugify_no_prefix)
  show "\<not> suffix ''-'' (slugify s)" by (rule slugify_no_suffix)
  show "\<not> sublist ''--'' (slugify s)" by (rule slugify_no_doble)
qed

theorem slugify_idempotente_witness:
  "slugify (slugify (''  Mi --- art'' @ [CHR 0xED] @ ''culo!!  '')) = ''mi-articulo''"
proof -
  have "slugify (''  Mi --- art'' @ [CHR 0xED] @ ''culo!!  '') = ''mi-articulo''"
    by code_simp
  with slugify_idempotente [of "''  Mi --- art'' @ [CHR 0xED] @ ''culo!!  ''"] show ?thesis
    by simp
qed

section \<open>Properties of sustituir_placeholders\<close>

lemma envolver_not_Nil: "envolver k \<noteq> []"
  by (simp add: envolver_def)

lemma replace_ne_absent: "\<not> sublist old s \<Longrightarrow> replace_ne old new s = s"
  by (induction s) (auto simp: sublist_Cons_right)

lemma str_replace_envolver: "str_replace (envolver k) v s = replace_ne (envolver k) v s"
  by (simp add: str_replace_def envolver_not_Nil)

lemma sustituir_Nil: "sustituir_placeholders c [] = c"
  by (simp add: sustituir_placeholders_def)

lemma sustituir_Cons:
  "sustituir_placeholders c ((k, v) # vars) =
     sustituir_placeholders (replace_ne (envolver k) v c) vars"
  by (simp add: sustituir_placeholders_def str_replace_envolver)

lemma brace_prefix_eq:
  "sin_llaves k \<Longrightarrow> sin_llaves n \<Longrightarrow> prefix (k @ CHR ''}'' # r1) (n @ CHR ''}'' # r2) \<Longrightarrow> k = n"
proof (induction k arbitrary: n)
  case Nil
  then show ?case by (cases n) (auto simp: sin_llaves_def)
next
  case (Cons a k)
  then show ?case by (cases n) (auto simp: sin_llaves_def)
qed

lemma prefix_envolver_token:
  assumes "sin_llaves k" and "sin_llaves n"
  shows "prefix (envolver k) (envolver n @ post) \<longleftrightarrow> k = n"
proof
  assume "prefix (envolver k) (envolver n @ post)"
  then have "prefix (k @ CHR ''}'' # ''}'') (n @ CHR ''}'' # (''}'' @ post))"
    by (simp add: envolver_def)
  with assms show "k = n" by (rule brace_prefix_eq)
next
  assume "k = n"
  then show "prefix (envolver k) (envolver n @ post)" by simp
qed

lemma replace_ne_skip:
  "hd old \<notin> set xs \<Longrightarrow> replace_ne old new (xs @ rest) = xs @ replace_ne old new rest"
proof (induction xs)
  case Nil
  then show ?case by simp
next
  case (Cons a xs)
  then have "\<not> prefix old (a # xs @ rest)" if "old \<noteq> []"
    using that by (cases old) auto
  with Cons show ?case by auto
qed

lemma hd_after_open: "sin_llaves n \<Longrightarrow> hd (n @ CHR ''}'' # r) \<noteq> CHR ''{''"
  by (cases n) (auto simp: sin_llaves_def)

lemma replace_ne_token:
  assumes k: "sin_llaves k" and n: "sin_llaves n"
  shows "replace_ne (envolver k) new (envolver n @ post) =
           (if n = k then new else envolver n) @ replace_ne (envolver k) new post"
proof (cases "n = k")
  case True
  then show ?thesis
    by (simp add: envolver_def)
next
  case False
  let ?old = "envolver k"
  have p0: "\<not> prefix ?old (envolver n @ post)"
    using False prefix_envolver_token [OF k n] by auto
  have p1: "\<not> prefix ?old (CHR ''{'' # n @ ''}}'' @ post)"
    using hd_after_open [OF n, of "''}'' @ post"]
    by (cases "n @ ''}}'' @ post") (auto simp: envolver_def)
  have "hd ?old \<notin> set (n @ ''}}'')"
    using n by (simp add: envolver_def sin_llaves_def)
  then have p2: "replace_ne ?old new ((n @ ''}}'') @ post) = (n @ ''}}'') @ replace_ne ?old new post"
    by (rule replace_ne_skip)
  have "replace_ne ?old new (envolver n @ post) =
          CHR ''{'' # replace_ne ?old new (CHR ''{'' # n @ ''}}'' @ post)"
    using p0 by (simp add: envolver_def)
  also have "\<dots> = CHR ''{'' # CHR ''{'' # replace_ne ?old new ((n @ ''}}'') @ post)"
    using p1 by simp
  also have "\<dots> = envolver n @ replace_ne ?old new post"
    by (simp only: p2) (simp add: envolver_def)
  finally show ?thesis using False by simp
qed

lemma prefix_envolver_no_cross:
  assumes k: "sin_llaves k" and pre: "pre \<noteq> []"
    and p: "prefix (envolver k) (pre @ envolver n @ post)"
  shows "prefix (envolver k) pre"
proof (rule ccontr)
  assume np: "\<not> prefix (envolver k) pre"
  with p obtain us where e: "envolver k = pre @ us" and u: "prefix us (envolver n @ post)"
    by (auto simp: prefix_append)
  from np e have "us \<noteq> []" by auto
  with u have hu: "hd us = CHR ''{''"
    by (cases us) (auto simp: envolver_def)
  from pre obtain a pre' where pa: "pre = a # pre'" by (cases pre) auto
  with e have a: "a = CHR ''{''" and e1: "CHR ''{'' # k @ ''}}'' = pre' @ us"
    by (auto simp: envolver_def)
  show False
  proof (cases pre')
    case Nil
    with e1 have "us = CHR ''{'' # k @ ''}}''" by simp
    with u have "prefix (k @ ''}}'') (CHR ''{'' # n @ ''}}'' @ post)"
      by (simp add: envolver_def)
    then have "hd (k @ CHR ''}'' # ''}'') = CHR ''{''"
      by (cases "k @ ''}}''") auto
    then show False using hd_after_open [OF k] by simp
  next
    case (Cons b pre'')
    with e1 have "k @ ''}}'' = pre'' @ us" by simp
    then have "hd us \<in> set (k @ ''}}'')"
      using \<open>us \<noteq> []\<close> by (metis hd_in_set in_set_conv_decomp list.set_intros(1) set_append UnCI)
    with hu k show False by (simp add: sin_llaves_def)
  qed
qed

lemma replace_ne_around_token:
  assumes k: "sin_llaves k" and n: "sin_llaves n"
  shows "replace_ne (envolver k) new (pre @ envolver n @ post) =
           replace_ne (envolver k) new pre @ (if n = k then new else envolver n) @
           replace_ne (envolver k) new post"
proof (induction "envolver k" new pre rule: replace_ne.induct)
  case (1 new)
  show ?case using replace_ne_token [OF k n] by simp
next
  case (2 new c cs)
  let ?old = "envolver k"
  show ?case
  proof (cases "prefix ?old ((c # cs) @ envolver n @ post)")
    case True
    then have pp: "prefix ?old (c # cs)"
      using prefix_envolver_no_cross [OF k, of "c # cs" n post] by simp
    then have len: "length ?old \<le> length (c # cs)"
      by (rule prefix_length_le)
    have "replace_ne ?old new ((c # cs) @ envolver n @ post) =
            new @ replace_ne ?old new (drop (length ?old) ((c # cs) @ envolver n @ post))"
      using True by (simp add: envolver_not_Nil)
    also have "drop (length ?old) ((c # cs) @ envolver n @ post) =
                 drop (length ?old) (c # cs) @ envolver n @ post"
      unfolding drop_append using len by simp
    also have "replace_ne ?old new (drop (length ?old) (c # cs) @ envolver n @ post) =
                 replace_ne ?old new (drop (length ?old) (c # cs)) @
                 (if n = k then new else envolver n) @ replace_ne ?old new post"
      using 2(1) pp by (simp add: envolver_not_Nil)
    finally show ?thesis
      using pp by (simp add: envolver_not_Nil)
  next
    case False
    then have np: "\<not> prefix ?old (c # cs)"
      using prefix_prefix [of ?old "c # cs" "envolver n @ post"] by blast
    have "replace_ne ?old new ((c # cs) @ envolver n @ post) =
            c # replace_ne ?old new (cs @ envolver n @ post)"
      using False by simp
    also have "replace_ne ?old new (cs @ envolver n @ post) =
                 replace_ne ?old new cs @ (if n = k then new else envolver n) @
                 replace_ne ?old new post"
      using 2(2) np by simp
    finally show ?thesis
      using np by simp
  qed
qed

lemma sustituir_append:
  "sustituir_placeholders c (vs1 @ vs2) =
     sustituir_placeholders (sustituir_placeholders c vs1) vs2"
  by (simp add: sustituir_placeholders_def)

lemma sustituir_around_unknown:
  assumes "list_all (\<lambda>(k, v). sin_llaves k) vars" and "sin_llaves n"
    and "n \<notin> fst ` set vars"
  shows "sustituir_placeholders (pre @ envolver n @ post) vars =
           sustituir_placeholders pre vars @ envolver n @ sustituir_placeholders post vars"
  using assms
proof (induction vars arbitrary: pre post)
  case Nil
  then show ?case by (simp add: sustituir_Nil)
next
  case (Cons kv vars)
  obtain k v where kv: "kv = (k, v)" by (cases kv)
  from Cons.prems kv have k: "sin_llaves k" and nk: "n \<noteq> k"
    and rest: "list_all (\<lambda>(k, v). sin_llaves k) vars" "n \<notin> fst ` set vars"
    by auto
  have "replace_ne (envolver k) v (pre @ envolver n @ post) =
          replace_ne (envolver k) v pre @ envolver n @ replace_ne (envolver k) v post"
    using replace_ne_around_token [OF k Cons.prems(2), of v pre post] nk by simp
  then show ?case
    unfolding kv sustituir_Cons
    using Cons.IH [OF rest(1) Cons.prems(2) rest(2)] by simp
qed

text \<open>
  C5. A token whose name (a text without braces) is not a key of the mapping is left
  verbatim, whatever stands before and after it: the substitution acts on the text before
  it and on the text after it, and the token stays between the two results. The keys are
  token names as well. The function has no error path, so nothing is raised or reported.
  In particular \<open>render("{{UNKNOWN}} {{TITLE}}", {TITLE: "X"}) = "{{UNKNOWN}} X"\<close>.
\<close>

theorem tokens_desconocidos:
  assumes "list_all (\<lambda>(k, v). sin_llaves k) vars" and "sin_llaves n"
    and "n \<notin> fst ` set vars"
  shows "sustituir_placeholders (pre @ envolver n @ post) vars =
           sustituir_placeholders pre vars @ envolver n @ sustituir_placeholders post vars \<and>
         sustituir_placeholders ''{{UNKNOWN}} {{TITLE}}'' [(''TITLE'', ''X'')] =
           ''{{UNKNOWN}} X''"
proof
  show "sustituir_placeholders (pre @ envolver n @ post) vars =
          sustituir_placeholders pre vars @ envolver n @ sustituir_placeholders post vars"
    using assms by (rule sustituir_around_unknown)
  show "sustituir_placeholders ''{{UNKNOWN}} {{TITLE}}'' [(''TITLE'', ''X'')] = ''{{UNKNOWN}} X''"
    by code_simp
qed

theorem tokens_desconocidos_witness:
  "list_all (\<lambda>(k, v). sin_llaves k) [(''TITULO'', ''X''), (''AUTOR'', ''Y'')] \<and>
   sin_llaves ''UNKNOWN'' \<and> ''UNKNOWN'' \<notin> fst ` set [(''TITULO'', ''X''), (''AUTOR'', ''Y'')] \<and>
   sustituir_placeholders (''{{AUTOR}}: '' @ envolver ''UNKNOWN'' @ '' {{TITULO}}'')
     [(''TITULO'', ''X''), (''AUTOR'', ''Y'')] = ''Y: {{UNKNOWN}} X''"
proof -
  let ?vars = "[(''TITULO'', ''X''), (''AUTOR'', ''Y'')]"
  have h1: "list_all (\<lambda>(k, v). sin_llaves k) ?vars"
    by (simp add: sin_llaves_def)
  have h2: "sin_llaves ''UNKNOWN''"
    by (simp add: sin_llaves_def)
  have h3: "''UNKNOWN'' \<notin> fst ` set ?vars"
    by simp
  have e1: "sustituir_placeholders ''{{AUTOR}}: '' ?vars = ''Y: ''"
    by code_simp
  have e2: "sustituir_placeholders '' {{TITULO}}'' ?vars = '' X''"
    by code_simp
  from tokens_desconocidos [OF h1 h2 h3, of "''{{AUTOR}}: ''" "'' {{TITULO}}''"]
  have "sustituir_placeholders (''{{AUTOR}}: '' @ envolver ''UNKNOWN'' @ '' {{TITULO}}'') ?vars =
          ''Y: '' @ envolver ''UNKNOWN'' @ '' X''"
    unfolding e1 e2 by (rule conjunct1)
  then show ?thesis
    using h1 h2 h3 by (simp add: envolver_def)
qed

text \<open>
  C7. When the body contains the wrapped form of no key of the mapping, the substitution
  returns the body unchanged.
\<close>

theorem sustituir_sin_tokens:
  "list_all (\<lambda>(k, v). \<not> sublist (envolver k) body) vars \<Longrightarrow>
     sustituir_placeholders body vars = body"
proof (induction vars)
  case Nil
  then show ?case by (simp add: sustituir_Nil)
next
  case (Cons kv vars)
  obtain k v where kv: "kv = (k, v)" by (cases kv)
  from Cons.prems kv have "\<not> sublist (envolver k) body"
    and rest: "list_all (\<lambda>(k, v). \<not> sublist (envolver k) body) vars"
    by auto
  then have "replace_ne (envolver k) v body = body"
    by (simp add: replace_ne_absent)
  then show ?case
    unfolding kv sustituir_Cons using Cons.IH [OF rest] by simp
qed

theorem sustituir_sin_tokens_witness:
  "list_all (\<lambda>(k, v). \<not> sublist (envolver k) ''{{OTRO}} y {TITULO}'')
     [(''TITULO'', ''X''), (''AUTOR'', ''Y'')] \<and>
   sustituir_placeholders ''{{OTRO}} y {TITULO}'' [(''TITULO'', ''X''), (''AUTOR'', ''Y'')] =
     ''{{OTRO}} y {TITULO}''"
proof -
  have h: "list_all (\<lambda>(k, v). \<not> sublist (envolver k) ''{{OTRO}} y {TITULO}'')
             [(''TITULO'', ''X''), (''AUTOR'', ''Y'')]"
    by code_simp
  from h sustituir_sin_tokens [OF h] show ?thesis
    by (rule conjI)
qed

text \<open>
  C2 as stated fails: the keys are substituted one after another over the whole text, so a
  value put in for one key is scanned again for every later key. A title that contains the
  wrapped form of \<open>AUTOR\<close> comes out as the author's name.
\<close>

theorem sustituir_reexpande_counterexample:
  "sustituir_placeholders ''{{TITULO}}'' [(''TITULO'', ''{{AUTOR}}''), (''AUTOR'', ''Juan'')] =
     ''Juan'' \<and>
   sustituir_placeholders ''{{TITULO}}'' [(''TITULO'', ''{{AUTOR}}''), (''AUTOR'', ''Juan'')] \<noteq>
     ''{{AUTOR}}''"
proof -
  have "sustituir_placeholders ''{{TITULO}}'' [(''TITULO'', ''{{AUTOR}}''), (''AUTOR'', ''Juan'')] =
          ''Juan''"
    by code_simp
  then show ?thesis by simp
qed

text \<open>
  C2 (amended). The replacement of one key is a single pass: where the wrapped form of the
  key (a token name) stands in the body its value is put in as it is, also when the value
  contains the wrapped form of that same key, and the pass goes on with the text after it.
  The keys are applied one after another, each to the whole result of the keys before it:
  the values put in by earlier keys are scanned by the later keys, and never the other way
  round.
\<close>

theorem sustituir_pasada_por_clave:
  "(sin_llaves k \<longrightarrow>
      sustituir_placeholders (pre @ envolver k @ post) [(k, v)] =
        sustituir_placeholders pre [(k, v)] @ v @ sustituir_placeholders post [(k, v)]) \<and>
   sustituir_placeholders body (vs1 @ vs2) =
     sustituir_placeholders (sustituir_placeholders body vs1) vs2"
proof -
  have a: "sustituir_placeholders (pre @ envolver k @ post) [(k, v)] =
             sustituir_placeholders pre [(k, v)] @ v @ sustituir_placeholders post [(k, v)]"
    if k: "sin_llaves k"
    using replace_ne_around_token [OF k k, of v pre post]
    by (simp add: sustituir_Cons sustituir_Nil)
  have b: "sustituir_placeholders body (vs1 @ vs2) =
             sustituir_placeholders (sustituir_placeholders body vs1) vs2"
    by (rule sustituir_append)
  from a b show ?thesis by blast
qed

theorem sustituir_pasada_por_clave_witness:
  "sin_llaves ''AUTOR'' \<and>
   sustituir_placeholders (''de '' @ envolver ''AUTOR'' @ ''.'') [(''AUTOR'', ''{{AUTOR}} y {{TITULO}}'')] =
     ''de {{AUTOR}} y {{TITULO}}.'' \<and>
   sustituir_placeholders ''{{AUTOR}}'' ([(''TITULO'', ''T'')] @ [(''AUTOR'', ''{{TITULO}}'')]) =
     ''{{TITULO}}''"
proof -
  have h: "sin_llaves ''AUTOR''"
    by (simp add: sin_llaves_def)
  have e1: "sustituir_placeholders ''de '' [(''AUTOR'', ''{{AUTOR}} y {{TITULO}}'')] = ''de ''"
    by code_simp
  have e2: "sustituir_placeholders ''.'' [(''AUTOR'', ''{{AUTOR}} y {{TITULO}}'')] = ''.''"
    by code_simp
  have e3: "sustituir_placeholders ''{{AUTOR}}'' [(''TITULO'', ''T'')] = ''{{AUTOR}}''"
    by code_simp
  have e4: "sustituir_placeholders ''{{AUTOR}}'' [(''AUTOR'', ''{{TITULO}}'')] = ''{{TITULO}}''"
    by code_simp
  from sustituir_pasada_por_clave
    [of "''AUTOR''" "''de ''" "''.''" "''{{AUTOR}} y {{TITULO}}''" "''{{AUTOR}}''"
        "[(''TITULO'', ''T'')]" "[(''AUTOR'', ''{{TITULO}}'')]"]
  show ?thesis
    using h by (simp add: e1 e2 e3 e4)
qed

section \<open>Properties of the project creation\<close>

lemmas prog_defs = bind_def ret_def raise_def print_def sys_exit_def exists_def

lemma verificar_sin_directorio:
  "\<not> existe (archivos w) T \<Longrightarrow>
     verificar_plantillas T w =
       (Inl (SysExit 1), w\<lparr>salida := salida w @ [ErrorSinDirectorioPlantillas T]\<rparr>)"
  by (simp add: verificar_plantillas_def prog_defs)

lemma verificar_con_directorio:
  "existe (archivos w) T \<Longrightarrow>
     verificar_plantillas T w =
       (Inr (),
        w\<lparr>salida := salida w @
           (let faltantes = filter (\<lambda>a. \<not> existe (archivos w) (pjoin T a)) archivos_necesarios
            in if faltantes = [] then [] else [AdvertenciaFaltanPlantillas T faltantes])\<rparr>)"
  by (simp add: verificar_plantillas_def prog_defs Let_def)

lemma verificar_archivos: "archivos (snd (verificar_plantillas T w)) = archivos w"
  by (cases "existe (archivos w) T")
     (simp_all add: verificar_sin_directorio verificar_con_directorio Let_def)

lemma crear_proyecto_colision:
  assumes t: "TIPOS tipo = Some info" and s: "existe (archivos w) T"
    and m: "map_of meses_es (month hoy) = Some mes"
    and d: "existe (archivos w) (pjoin base (slugify nombre))"
  shows "crear_proyecto T hoy nombre tipo autor base w =
           (Inl (SysExit 1),
            (snd (verificar_plantillas T w))
              \<lparr>salida := salida (snd (verificar_plantillas T w)) @
                 [ErrorDirectorioExiste (pjoin base (slugify nombre))]\<rparr>)"
  using t m d
  by (simp add: crear_proyecto_def verificar_con_directorio [OF s] formatear_fecha_def
        prog_defs Let_def)

lemma bind_Inr:
  assumes "bind m k w = (Inr x, w')"
  obtains y w1 where "m w = (Inr y, w1)" and "k y w1 = (Inr x, w')"
  using assms by (auto simp: bind_def split: prod.splits sum.splits)

lemma lift_fs_Inr:
  assumes "lift_fs op w = (Inr x, w')"
  obtains f' where "op (archivos w) = Inr f'" and "w' = w\<lparr>archivos := f'\<rparr>"
  using assms by (auto simp: lift_fs_def split: sum.splits)

lemma os_mkdir_Inr:
  "os_mkdir f p = Inr f' \<Longrightarrow> f' = f(p \<mapsto> Dir) \<and> \<not> existe f p"
  by (auto simp: os_mkdir_def split: if_splits option.splits node.splits)

lemma no_existe_None: "\<not> existe f p \<Longrightarrow> f p = None"
  by (auto simp: existe_def buscar_def split: if_splits)

lemma crece_refl: "crece f f"
  by (simp add: crece_def)

lemma crece_trans: "crece f g \<Longrightarrow> crece g h \<Longrightarrow> crece f h"
  unfolding crece_def by metis

lemma crece_upd: "\<not> existe f p \<Longrightarrow> crece f (f(p \<mapsto> Dir))"
  by (auto simp: crece_def dest: no_existe_None)

lemma is_dir_upd: "is_dir (f(p \<mapsto> Dir)) p"
  by (simp add: is_dir_def buscar_def)

lemma mkdir_plain_Inr:
  assumes "mkdir_plain e f p = Inr f'"
  shows "crece f f' \<and> is_dir f' p"
proof (cases "os_mkdir f p")
  case (Inr g)
  with assms have "f' = g" by (simp add: mkdir_plain_def)
  with Inr os_mkdir_Inr [of f p g] show ?thesis
    by (simp add: crece_upd is_dir_upd)
next
  case (Inl err)
  with assms have "f' = f \<and> is_dir f p"
    by (cases err) (auto simp: mkdir_plain_def split: if_splits)
  then show ?thesis by (simp add: crece_refl)
qed

lemma mkdir_parents_Inr:
  "mkdir_parents e f p = Inr f' \<Longrightarrow> crece f f' \<and> is_dir f' p"
proof (induction e f p arbitrary: f' rule: mkdir_parents.induct)
  case (1 exist_ok f p)
  show ?case
  proof (cases "os_mkdir f p")
    case (Inr g)
    with 1(2) have "f' = g" by (simp add: mkdir_parents.simps [of exist_ok f p])
    moreover have "crece f g \<and> is_dir g p"
      using os_mkdir_Inr [OF Inr] crece_upd [of f p] is_dir_upd [of f p] by auto
    ultimately show ?thesis by simp
  next
    case (Inl err)
    show ?thesis
    proof (cases "err = FileNotFoundError")
      case True
      with Inl 1(2) have p: "p \<noteq> []"
        by (auto simp: mkdir_parents.simps [of exist_ok f p] split: if_splits)
      with True Inl 1(2) obtain g where g: "mkdir_parents True f (butlast p) = Inr g"
        and h: "mkdir_plain exist_ok g p = Inr f'"
        by (auto simp: mkdir_parents.simps [of exist_ok f p] split: sum.splits)
      from 1(1) [OF Inl True p g] have "crece f g" by simp
      moreover from mkdir_plain_Inr [OF h] have "crece g f'" and "is_dir f' p" by simp_all
      ultimately show ?thesis using crece_trans by blast
    next
      case False
      with Inl 1(2) have "f' = f \<and> is_dir f p"
        by (cases err) (auto simp: mkdir_parents.simps [of exist_ok f p] split: if_splits)
      then show ?thesis by (simp add: crece_refl)
    qed
  qed
qed

lemma os_write_Inr: "os_write p t f = Inr f' \<Longrightarrow> f' = f(p \<mapsto> File t)"
  by (auto simp: os_write_def split: if_splits option.splits node.splits)

lemma write_text_Inr:
  assumes "write_text p t w = (Inr x, w')"
  shows "w' = w\<lparr>archivos := (archivos w)(p \<mapsto> File t)\<rparr>"
  using assms unfolding write_text_def
  by (elim lift_fs_Inr) (auto dest: os_write_Inr)

lemma read_text_Inr:
  "read_text p w = (Inr t, w') \<Longrightarrow> w' = w \<and> buscar (archivos w) p = Some (File t)"
  by (auto simp: read_text_def split: option.splits node.splits)

lemma copiar_plantilla_Inr:
  assumes "copiar_plantilla origen destino variables w = (Inr x, w')"
  obtains t where "buscar (archivos w) origen = Some (File t)"
    and "w' = w\<lparr>archivos := (archivos w)(destino \<mapsto> File (sustituir_placeholders t variables))\<rparr>"
  using assms unfolding copiar_plantilla_def
  by (elim bind_Inr) (auto dest!: read_text_Inr write_text_Inr)

lemma print_Inr: "print m w = (Inr x, w') \<Longrightarrow> archivos w' = archivos w"
  by (auto simp: print_def)

lemma mkdir_Inr:
  assumes "mkdir p parents w = (Inr x, w')"
  obtains f' where "w' = w\<lparr>archivos := f'\<rparr>" and "crece (archivos w) f'" and "is_dir f' p"
proof -
  from assms obtain f' where w': "w' = w\<lparr>archivos := f'\<rparr>"
    and op: "(if parents then mkdir_parents False (archivos w) p
              else mkdir_plain False (archivos w) p) = Inr f'"
    unfolding mkdir_def by (elim lift_fs_Inr)
  from op have "crece (archivos w) f' \<and> is_dir f' p"
    by (cases parents) (simp_all add: mkdir_parents_Inr mkdir_plain_Inr)
  with w' that show ?thesis by blast
qed

lemma conserva_bind: "conserva m \<Longrightarrow> (\<And>x. conserva (k x)) \<Longrightarrow> conserva (bind m k)"
  unfolding conserva_def bind_def
  by (auto split: prod.splits sum.splits)

lemma bind_Inr_conserva:
  assumes "bind m k w = (Inr u, w')" and "\<And>x. conserva (k x)"
  obtains x w1 where "m w = (Inr x, w1)"
    and "\<forall>q. existe (archivos w1) q \<longrightarrow> existe (archivos w') q"
proof -
  from assms(1) obtain x w1 where a: "m w = (Inr x, w1)" and b: "k x w1 = (Inr u, w')"
    by (rule bind_Inr)
  from assms(2) [of x] b have "\<forall>q. existe (archivos w1) q \<longrightarrow> existe (archivos w') q"
    unfolding conserva_def by blast
  with a that show ?thesis by blast
qed

lemma conserva_simple:
  "conserva (print m)" "conserva (ret x)" "conserva (raise e)" "conserva (sys_exit n)"
  "conserva (exists p)" "conserva (read_text p)"
  by (auto simp: conserva_def prog_defs read_text_def split: option.splits node.splits)

lemma conserva_if: "conserva a \<Longrightarrow> conserva b \<Longrightarrow> conserva (if c then a else b)"
  by simp

lemma existe_upd: "existe f q \<Longrightarrow> existe (f(p \<mapsto> n)) q"
  by (auto simp: existe_def buscar_def)

lemma crece_existe: "crece f g \<Longrightarrow> existe f q \<Longrightarrow> existe g q"
  by (auto simp: crece_def existe_def buscar_def split: if_splits)

lemma conserva_write_text: "conserva (write_text p t)"
  unfolding conserva_def write_text_def lift_fs_def
  by (auto split: sum.splits dest!: os_write_Inr simp: existe_upd)

lemma conserva_mkdir: "conserva (mkdir p parents)"
  unfolding conserva_def mkdir_def lift_fs_def
  by (auto split: sum.splits if_splits dest!: mkdir_parents_Inr mkdir_plain_Inr
        intro: crece_existe)

lemma conserva_copiar: "conserva (copiar_plantilla a b vars)"
  unfolding copiar_plantilla_def
  by (intro conserva_bind conserva_simple conserva_write_text)

lemma conserva_materializar:
  "conserva (materializar T info nombre autor fecha slug variables dir)"
  unfolding materializar_def Let_def
  by (intro conserva_bind conserva_if conserva_simple conserva_write_text conserva_mkdir
        conserva_copiar)

lemma materializar_crea_directorio:
  assumes "materializar T info nombre autor fecha slug variables dir w = (Inr u, w')"
  shows "existe (archivos w') dir \<and> (\<forall>q. existe (archivos w) q \<longrightarrow> existe (archivos w') q)"
proof -
  have c: "\<forall>q. existe (archivos w) q \<longrightarrow> existe (archivos w') q"
    using conserva_materializar assms unfolding conserva_def by blast
  from assms have "bind (mkdir dir True) (\<lambda>_.
      bind (mkdir (pjoin dir ''figuras'') False) (\<lambda>_.
      bind (bind (exists (pjoin T (plantilla info))) (\<lambda>hay.
              if hay then copiar_plantilla (pjoin T (plantilla info))
                            (pjoin dir (slug @ ''.tex'')) variables
              else bind (print (AdvertenciaSinPlantilla (pjoin T (plantilla info)))) (\<lambda>_.
                     write_text (pjoin dir (slug @ ''.tex''))
                       (tex_minimo (clase info) nombre autor fecha)))) (\<lambda>_.
      bind (bind (exists (pjoin T ''referencias.bib'')) (\<lambda>hay.
              if hay then copiar_plantilla (pjoin T ''referencias.bib'')
                            (pjoin dir ''referencias.bib'') variables
              else write_text (pjoin dir ''referencias.bib'') bib_minimo)) (\<lambda>_.
      bind (bind (exists (pjoin T ''Makefile'')) (\<lambda>hay.
              if hay then copiar_plantilla (pjoin T ''Makefile'') (pjoin dir ''Makefile'') variables
              else ret ())) (\<lambda>_.
      bind (write_text (pjoin dir ''.gitignore'') gitignore_contenido) (\<lambda>_.
      print (ResumenProyecto (descripcion info) nombre autor dir slug))))))) w = (Inr u, w')"
    by (simp add: materializar_def Let_def)
  then obtain x w1 where s1: "mkdir dir True w = (Inr x, w1)"
    and c1: "\<forall>q. existe (archivos w1) q \<longrightarrow> existe (archivos w') q"
    by (rule bind_Inr_conserva)
       (intro conserva_bind conserva_if conserva_simple conserva_write_text conserva_mkdir
          conserva_copiar)
  from s1 have "is_dir (archivos w1) dir"
    by (elim mkdir_Inr) simp
  then have "existe (archivos w1) dir" by (simp add: is_dir_def existe_def)
  with c1 have "existe (archivos w') dir" by blast
  with c show ?thesis by simp
qed

lemma mes_valido: "1 \<le> m \<and> m \<le> 12 \<Longrightarrow> \<exists>mes. map_of meses_es m = Some mes"
  by (auto simp: meses_es_def) arith

lemma tex_no_bib: "slug @ ''.tex'' \<noteq> ''referencias.bib''"
proof
  assume "slug @ ''.tex'' = ''referencias.bib''"
  then have "last (slug @ ''.tex'') = last ''referencias.bib''" by simp
  then show False by simp
qed

lemma paso_tex_Inr:
  assumes "paso_tex po tex variables minimo w = (Inr x, w')"
  obtains c where "archivos w' = (archivos w)(tex \<mapsto> File c)"
proof (cases "existe (archivos w) po")
  case True
  with assms have "copiar_plantilla po tex variables w = (Inr x, w')"
    by (simp add: paso_tex_def bind_def exists_def)
  then show ?thesis
    by (elim copiar_plantilla_Inr) (rule that, simp)
next
  case False
  with assms have "write_text tex minimo (w\<lparr>salida := salida w @ [AdvertenciaSinPlantilla po]\<rparr>) =
                     (Inr x, w')"
    by (simp add: paso_tex_def bind_def exists_def print_def)
  from write_text_Inr [OF this] show ?thesis
    by (intro that [of minimo]) simp
qed

lemma paso_makefile_Inr:
  assumes "paso_makefile mo dest variables w = (Inr x, w')"
  shows "archivos w' = archivos w \<or> (\<exists>c. archivos w' = (archivos w)(dest \<mapsto> File c))"
proof (cases "existe (archivos w) mo")
  case True
  with assms have "copiar_plantilla mo dest variables w = (Inr x, w')"
    by (simp add: paso_makefile_def bind_def exists_def)
  then show ?thesis
    by (elim copiar_plantilla_Inr) auto
next
  case False
  with assms show ?thesis
    by (simp add: paso_makefile_def bind_def exists_def ret_def)
qed

lemma paso_bib_Inr:
  assumes "paso_bib bo dest variables w = (Inr x, w')"
    and "buscar (archivos w) bo = None \<or> buscar (archivos w) bo = Some Dir"
  shows "archivos w' = (archivos w)(dest \<mapsto> File bib_minimo)"
proof (cases "existe (archivos w) bo")
  case True
  with assms(1) have "copiar_plantilla bo dest variables w = (Inr x, w')"
    by (simp add: paso_bib_def bind_def exists_def)
  then obtain t where "buscar (archivos w) bo = Some (File t)"
    by (elim copiar_plantilla_Inr)
  with assms(2) show ?thesis by simp
next
  case False
  with assms(1) have "write_text dest bib_minimo w = (Inr x, w')"
    by (simp add: paso_bib_def bind_def exists_def)
  from write_text_Inr [OF this] show ?thesis by simp
qed

lemma materializar_pasos:
  "materializar T info nombre autor fecha slug variables dir =
     bind (mkdir dir True) (\<lambda>_.
     bind (mkdir (pjoin dir ''figuras'') False) (\<lambda>_.
     bind (paso_tex (pjoin T (plantilla info)) (pjoin dir (slug @ ''.tex'')) variables
             (tex_minimo (clase info) nombre autor fecha)) (\<lambda>_.
     bind (paso_bib (pjoin T ''referencias.bib'') (pjoin dir ''referencias.bib'') variables) (\<lambda>_.
     bind (paso_makefile (pjoin T ''Makefile'') (pjoin dir ''Makefile'') variables) (\<lambda>_.
     bind (write_text (pjoin dir ''.gitignore'') gitignore_contenido) (\<lambda>_.
     print (ResumenProyecto (descripcion info) nombre autor dir slug)))))))"
  by (simp add: materializar_def Let_def paso_tex_def paso_bib_def paso_makefile_def)

lemma materializar_Inr:
  assumes "materializar T info nombre autor fecha slug variables dir w = (Inr u, w')"
  obtains x1 w1 x2 w2 x3 w3 x4 w4 x5 w5 x6 w6 where
    "mkdir dir True w = (Inr x1, w1)" and
    "mkdir (pjoin dir ''figuras'') False w1 = (Inr x2, w2)" and
    "paso_tex (pjoin T (plantilla info)) (pjoin dir (slug @ ''.tex'')) variables
       (tex_minimo (clase info) nombre autor fecha) w2 = (Inr x3, w3)" and
    "paso_bib (pjoin T ''referencias.bib'') (pjoin dir ''referencias.bib'') variables w3 =
       (Inr x4, w4)" and
    "paso_makefile (pjoin T ''Makefile'') (pjoin dir ''Makefile'') variables w4 = (Inr x5, w5)" and
    "write_text (pjoin dir ''.gitignore'') gitignore_contenido w5 = (Inr x6, w6)" and
    "print (ResumenProyecto (descripcion info) nombre autor dir slug) w6 = (Inr u, w')"
  using assms unfolding materializar_pasos
  by (elim bind_Inr) (rule that)

lemma materializar_bib_minimo:
  assumes ok: "materializar T info nombre autor fecha slug variables dir w = (Inr u, w')"
    and nb: "\<not> existe (archivos w) (pjoin T ''referencias.bib'')"
  shows "archivos w' (pjoin dir ''referencias.bib'') = Some (File bib_minimo)"
proof -
  let ?bo = "pjoin T ''referencias.bib''"
  let ?tex = "pjoin dir (slug @ ''.tex'')"
  from ok obtain x1 w1 x2 w2 x3 w3 x4 w4 x5 w5 x6 w6 where
    s1: "mkdir dir True w = (Inr x1, w1)" and
    s2: "mkdir (pjoin dir ''figuras'') False w1 = (Inr x2, w2)" and
    s3: "paso_tex (pjoin T (plantilla info)) ?tex variables
           (tex_minimo (clase info) nombre autor fecha) w2 = (Inr x3, w3)" and
    s4: "paso_bib ?bo (pjoin dir ''referencias.bib'') variables w3 = (Inr x4, w4)" and
    s5: "paso_makefile (pjoin T ''Makefile'') (pjoin dir ''Makefile'') variables w4 =
           (Inr x5, w5)" and
    s6: "write_text (pjoin dir ''.gitignore'') gitignore_contenido w5 = (Inr x6, w6)" and
    s7: "print (ResumenProyecto (descripcion info) nombre autor dir slug) w6 = (Inr u, w')"
    by (rule materializar_Inr)
  from s1 obtain f1 where w1: "w1 = w\<lparr>archivos := f1\<rparr>" and c1: "crece (archivos w) f1"
    by (rule mkdir_Inr)
  from s2 obtain f2 where w2: "w2 = w1\<lparr>archivos := f2\<rparr>" and c2: "crece (archivos w1) f2"
    by (rule mkdir_Inr)
  from c1 c2 w1 w2 have c: "crece (archivos w) (archivos w2)"
    using crece_trans by simp
  have bo: "?bo \<noteq> []" by (simp add: pjoin_def)
  with nb have "archivos w ?bo = None"
    by (simp add: no_existe_None)
  with c have b2: "archivos w2 ?bo = None \<or> archivos w2 ?bo = Some Dir"
    by (simp add: crece_def)
  from s3 obtain c3 where w3: "archivos w3 = (archivos w2)(?tex \<mapsto> File c3)"
    by (rule paso_tex_Inr)
  have ne: "?bo \<noteq> ?tex"
    using tex_no_bib [of slug] by (auto simp: pjoin_def)
  with w3 b2 bo have "buscar (archivos w3) ?bo = None \<or> buscar (archivos w3) ?bo = Some Dir"
    by (simp add: buscar_def)
  with s4 have w4: "archivos w4 = (archivos w3)(pjoin dir ''referencias.bib'' \<mapsto> File bib_minimo)"
    by (rule paso_bib_Inr)
  from paso_makefile_Inr [OF s5] w4
  have w5: "archivos w5 (pjoin dir ''referencias.bib'') = Some (File bib_minimo)"
    by (auto simp: pjoin_def)
  from write_text_Inr [OF s6] w5
  have "archivos w6 (pjoin dir ''referencias.bib'') = Some (File bib_minimo)"
    by (simp add: pjoin_def)
  with print_Inr [OF s7] show ?thesis by simp
qed

lemma crear_proyecto_Inr:
  assumes "crear_proyecto T hoy nombre tipo autor base w = (Inr u, w')"
  obtains info fecha wv where "TIPOS tipo = Some info"
    and "existe (archivos w) T"
    and "archivos wv = archivos w"
    and "\<not> existe (archivos w) (pjoin base (slugify nombre))"
    and "materializar T info nombre autor fecha (slugify nombre)
           [(''TITULO'', nombre), (''AUTOR'', autor), (''FECHA'', fecha),
            (''NOMBRE_ARCHIVO'', slugify nombre)]
           (pjoin base (slugify nombre)) wv = (Inr u, w')"
proof -
  from assms obtain info where t: "TIPOS tipo = Some info"
    by (cases "TIPOS tipo") (auto simp: crear_proyecto_def prog_defs)
  have s: "existe (archivos w) T"
  proof (rule ccontr)
    assume "\<not> existe (archivos w) T"
    with assms t show False
      by (simp add: crear_proyecto_def verificar_sin_directorio bind_def)
  qed
  obtain wv where v: "verificar_plantillas T w = (Inr (), wv)"
    and av: "archivos wv = archivos w"
    using verificar_con_directorio [OF s] by simp
  from assms t v obtain mes where m: "map_of meses_es (month hoy) = Some mes"
    by (cases "map_of meses_es (month hoy)")
       (auto simp: crear_proyecto_def formatear_fecha_def prog_defs Let_def)
  let ?fecha = "decimal (day hoy) @ '' de '' @ mes @ '' de '' @ decimal (year hoy)"
  have d: "\<not> existe (archivos w) (pjoin base (slugify nombre))"
  proof
    assume "existe (archivos w) (pjoin base (slugify nombre))"
    from crear_proyecto_colision [OF t s m this] assms show False by simp
  qed
  with assms t v m av
  have "materializar T info nombre autor ?fecha (slugify nombre)
           [(''TITULO'', nombre), (''AUTOR'', autor), (''FECHA'', ?fecha),
            (''NOMBRE_ARCHIVO'', slugify nombre)]
           (pjoin base (slugify nombre)) wv = (Inr u, w')"
    by (simp add: crear_proyecto_def formatear_fecha_def prog_defs Let_def)
  with t s av d that show ?thesis by blast
qed

lemma slug_sin_punto: "CHR ''.'' \<notin> set (slugify s)"
proof
  assume "CHR ''.'' \<in> set (slugify s)"
  with set_slugify [of s] obtain x where "is_alnum x" and "CHR ''.'' = normal_char x" by auto
  then have "is_alnum CHR ''.''"
    by (simp add: normal_char_def is_alnum_lower_char is_alnum_sin_acento)
  then show False by (simp add: is_alnum_def between_def)
qed

lemma slug_sin_M: "CHR ''M'' \<notin> set (slugify s)"
proof
  assume "CHR ''M'' \<in> set (slugify s)"
  with set_slugify [of s] obtain x where "CHR ''M'' = normal_char x" by auto
  then have "lower_char CHR ''M'' = CHR ''M''"
    using normal_char_fixed(2) [of x] by simp
  then have "cp (lower_char CHR ''M'') = cp CHR ''M''" by simp
  then show False by (simp add: lower_char_def between_def)
qed

lemma slug_no_es_plantilla: "a \<in> set archivos_necesarios \<Longrightarrow> slugify s \<noteq> a"
  using slug_sin_punto [of s] slug_sin_M [of s]
  by (auto simp: archivos_necesarios_def)

lemma plantilla_necesaria: "TIPOS tipo = Some info \<Longrightarrow> plantilla info \<in> set archivos_necesarios"
  by (auto simp: TIPOS_def TIPOS_items_def archivos_necesarios_def split: if_splits)

lemma nombres_distintos:
  "slug @ ''.tex'' \<noteq> ''figuras''" "slug @ ''.tex'' \<noteq> ''Makefile''"
  "slug @ ''.tex'' \<noteq> ''.gitignore''"
proof -
  have x: "last (slug @ ''.tex'') = CHR ''x''" by simp
  show "slug @ ''.tex'' \<noteq> ''figuras''"
  proof
    assume "slug @ ''.tex'' = ''figuras''"
    with x have "last ''figuras'' = CHR ''x''" by simp
    then show False by simp
  qed
  show "slug @ ''.tex'' \<noteq> ''Makefile''"
  proof
    assume "slug @ ''.tex'' = ''Makefile''"
    with x have "last ''Makefile'' = CHR ''x''" by simp
    then show False by simp
  qed
  show "slug @ ''.tex'' \<noteq> ''.gitignore''"
  proof
    assume "slug @ ''.tex'' = ''.gitignore''"
    with x have "last ''.gitignore'' = CHR ''x''" by simp
    then show False by simp
  qed
qed

lemma mkdir_parents_directo:
  "\<not> existe f p \<Longrightarrow> buscar f (butlast p) = Some Dir \<Longrightarrow>
     mkdir_parents e f p = Inr (f(p \<mapsto> Dir))"
  by (simp add: mkdir_parents.simps [of e f p] os_mkdir_def)

lemma mkdir_plain_directo:
  "\<not> existe f p \<Longrightarrow> buscar f (butlast p) = Some Dir \<Longrightarrow>
     mkdir_plain e f p = Inr (f(p \<mapsto> Dir))"
  by (simp add: mkdir_plain_def os_mkdir_def)

lemma os_write_directo:
  "\<not> is_dir f p \<Longrightarrow> buscar f (butlast p) = Some Dir \<Longrightarrow>
     os_write p t f = Inr (f(p \<mapsto> File t))"
  by (simp add: os_write_def)

text \<open>
  The run without any template, in full: when the template directory exists but holds none
  of the five files, the base directory is a directory, the title has an alphanumeric
  character and nothing exists at the target or below it, \<open>crear_proyecto\<close> returns normally
  and leaves exactly the project directory, \<open>figuras\<close>, the minimal document, the minimal
  bibliography and \<open>.gitignore\<close> (no \<open>Makefile\<close>), after the two warnings and before the
  summary.
\<close>

lemma crear_proyecto_sin_plantillas:
  assumes t: "TIPOS tipo = Some info" and s: "existe (archivos w) T"
    and m: "map_of meses_es (month hoy) = Some mes"
    and b: "is_dir (archivos w) base" and ne: "slugify nombre \<noteq> []"
    and libre: "\<forall>q. archivos w (base @ slugify nombre # q) = None"
    and sin: "\<forall>a\<in>set archivos_necesarios. \<not> existe (archivos w) (pjoin T a)"
  shows "crear_proyecto T hoy nombre tipo autor base w =
     (Inr (),
      w\<lparr>archivos := (archivos w)
           (base @ [slugify nombre] \<mapsto> Dir,
            base @ [slugify nombre, ''figuras''] \<mapsto> Dir,
            base @ [slugify nombre, slugify nombre @ ''.tex''] \<mapsto>
              File (tex_minimo (clase info) nombre autor
                      (decimal (day hoy) @ '' de '' @ mes @ '' de '' @ decimal (year hoy))),
            base @ [slugify nombre, ''referencias.bib''] \<mapsto> File bib_minimo,
            base @ [slugify nombre, ''.gitignore''] \<mapsto> File gitignore_contenido),
         salida := salida w @
           [AdvertenciaFaltanPlantillas T archivos_necesarios,
            AdvertenciaSinPlantilla (pjoin T (plantilla info)),
            ResumenProyecto (descripcion info) nombre autor (base @ [slugify nombre])
              (slugify nombre)]\<rparr>)"
proof -
  define slug where "slug = slugify nombre"
  define dir where "dir = base @ [slug]"
  define f where "f = archivos w"
  define fecha where "fecha = decimal (day hoy) @ '' de '' @ mes @ '' de '' @ decimal (year hoy)"
  define vars where "vars = [(''TITULO'', nombre), (''AUTOR'', autor), (''FECHA'', fecha),
                             (''NOMBRE_ARCHIVO'', slug)]"
  define tex where "tex = dir @ [slug @ ''.tex'']"
  define f1 where "f1 = f(dir \<mapsto> Dir)"
  define f2 where "f2 = f1(dir @ [''figuras''] \<mapsto> Dir)"
  define f3 where "f3 = f2(tex \<mapsto> File (tex_minimo (clase info) nombre autor fecha))"
  define f4 where "f4 = f3(dir @ [''referencias.bib''] \<mapsto> File bib_minimo)"
  define f5 where "f5 = f4(dir @ [''.gitignore''] \<mapsto> File gitignore_contenido)"
  define w0 where "w0 = w\<lparr>salida := salida w @ [AdvertenciaFaltanPlantillas T archivos_necesarios]\<rparr>"
  define w3 where "w3 = w0\<lparr>archivos := f3,
                        salida := salida w0 @ [AdvertenciaSinPlantilla (pjoin T (plantilla info))]\<rparr>"
  have dirp: "pjoin base slug = dir" "dir \<noteq> []" "butlast dir = base"
    using ne by (simp_all add: pjoin_def dir_def slug_def)
  have hijo: "pjoin dir x = dir @ [x]" "butlast (dir @ [x]) = dir" if "x \<noteq> []" for x
    using that by (simp_all add: pjoin_def)
  have fdir: "f dir = None" and fhijo: "f (dir @ [x]) = None" for x
    using libre by (simp_all add: f_def dir_def slug_def)
  have nodir: "\<not> existe f dir"
    using fdir dirp(2) by (simp add: existe_def buscar_def)
  have Tdir: "T \<noteq> dir"
    using s nodir by (auto simp: f_def)
  have fuera: "pjoin T a \<noteq> dir \<and> pjoin T a \<noteq> dir @ [x] \<and> pjoin T a \<noteq> []"
    if "a \<in> set archivos_necesarios" for a x
  proof -
    from that have "a \<noteq> []" by (auto simp: archivos_necesarios_def)
    moreover from that have "slug \<noteq> a" unfolding slug_def by (rule slug_no_es_plantilla)
    ultimately show ?thesis using Tdir by (auto simp: pjoin_def dir_def)
  qed
  have sinf: "f (pjoin T a) = None" if "a \<in> set archivos_necesarios" for a
    using sin that fuera [OF that] by (auto simp: f_def existe_def buscar_def)
  have nec: "plantilla info \<in> set archivos_necesarios"
    "''referencias.bib'' \<in> set archivos_necesarios" "''Makefile'' \<in> set archivos_necesarios"
    using plantilla_necesaria [OF t] by (simp_all add: archivos_necesarios_def)
  have ex: "\<not> existe g (pjoin T a)"
    if "a \<in> set archivos_necesarios" and "g (pjoin T a) = f (pjoin T a)" for g a
    using that sinf [OF that(1)] fuera [OF that(1)] by (simp add: existe_def buscar_def)
  \<comment> \<open>the check of the templates\<close>
  have falt: "filter (\<lambda>a. \<not> existe (archivos w) (pjoin T a)) archivos_necesarios =
                archivos_necesarios"
    using sin by (intro filter_True) simp
  have nonec: "archivos_necesarios \<noteq> []"
    by (simp add: archivos_necesarios_def)
  have v: "verificar_plantillas T w = (Inr (), w0)"
    using verificar_con_directorio [OF s] nonec
    by (simp add: falt Let_def w0_def)
  have a0: "archivos w0 = f" by (simp add: w0_def f_def)
  have c: "crear_proyecto T hoy nombre tipo autor base w =
             materializar T info nombre autor fecha slug vars dir w0"
    using t m nodir dirp(1)
    by (simp add: crear_proyecto_def v formatear_fecha_def prog_defs Let_def a0
          fecha_def vars_def slug_def [symmetric])
  \<comment> \<open>the steps of the materialisation\<close>
  have p1: "mkdir dir True w0 = (Inr (), w0\<lparr>archivos := f1\<rparr>)"
    using nodir b dirp(3)
    by (simp add: mkdir_def lift_fs_def a0 mkdir_parents_directo is_dir_def f1_def f_def)
  have "\<not> existe f1 (dir @ [''figuras''])"
    using fhijo [of "''figuras''"] by (simp add: f1_def existe_def buscar_def)
  moreover have padre1: "buscar f1 dir = Some Dir"
    using dirp(2) by (simp add: f1_def buscar_def)
  ultimately have p2:
    "mkdir (pjoin dir ''figuras'') False (w0\<lparr>archivos := f1\<rparr>) = (Inr (), w0\<lparr>archivos := f2\<rparr>)"
    by (simp add: mkdir_def lift_fs_def mkdir_plain_directo hijo f2_def)
  have tex: "pjoin dir (slug @ ''.tex'') = tex" "butlast tex = dir"
    by (simp_all add: tex_def pjoin_def)
  have "f2 (pjoin T (plantilla info)) = f (pjoin T (plantilla info))"
    using fuera [OF nec(1)] by (simp add: f2_def f1_def)
  with ex [OF nec(1)] have e3: "\<not> existe f2 (pjoin T (plantilla info))" by simp
  have "f2 tex = None"
    using fhijo [of "slug @ ''.tex''"] nombres_distintos(1) [of slug]
    by (simp add: f2_def f1_def tex_def)
  then have nd3: "\<not> is_dir f2 tex"
    by (simp add: is_dir_def buscar_def tex_def)
  have padre2: "buscar f2 dir = Some Dir"
    using dirp(2) by (simp add: f2_def f1_def buscar_def)
  have p3: "paso_tex (pjoin T (plantilla info)) (pjoin dir (slug @ ''.tex'')) vars
              (tex_minimo (clase info) nombre autor fecha) (w0\<lparr>archivos := f2\<rparr>) =
            (Inr (), w3)"
    using e3 nd3 padre2
    by (simp add: paso_tex_def prog_defs write_text_def lift_fs_def os_write_directo tex
          w3_def f3_def)
  have a3: "archivos w3 = f3" by (simp add: w3_def)
  have "f3 (pjoin T ''referencias.bib'') = f (pjoin T ''referencias.bib'')"
    using fuera [OF nec(2)] by (simp add: f3_def f2_def f1_def tex_def)
  with ex [OF nec(2)] have e4: "\<not> existe f3 (pjoin T ''referencias.bib'')" by simp
  have "f3 (dir @ [''referencias.bib'']) = None"
    using fhijo [of "''referencias.bib''"] tex_no_bib [of slug]
    by (simp add: f3_def f2_def f1_def tex_def)
  then have nd4: "\<not> is_dir f3 (dir @ [''referencias.bib''])"
    by (simp add: is_dir_def buscar_def)
  have padre3: "buscar f3 dir = Some Dir"
    using dirp(2) by (simp add: f3_def f2_def f1_def buscar_def tex_def)
  have p4: "paso_bib (pjoin T ''referencias.bib'') (pjoin dir ''referencias.bib'') vars w3 =
            (Inr (), w3\<lparr>archivos := f4\<rparr>)"
    using e4 nd4 padre3
    by (simp add: paso_bib_def prog_defs write_text_def lift_fs_def os_write_directo hijo a3
          f4_def)
  have "f4 (pjoin T ''Makefile'') = f (pjoin T ''Makefile'')"
    using fuera [OF nec(3)] by (simp add: f4_def f3_def f2_def f1_def tex_def)
  with ex [OF nec(3)] have e5: "\<not> existe f4 (pjoin T ''Makefile'')" by simp
  have p5: "paso_makefile (pjoin T ''Makefile'') (pjoin dir ''Makefile'') vars
              (w3\<lparr>archivos := f4\<rparr>) = (Inr (), w3\<lparr>archivos := f4\<rparr>)"
    using e5 by (simp add: paso_makefile_def prog_defs)
  have "f4 (dir @ [''.gitignore'']) = None"
    using fhijo [of "''.gitignore''"] nombres_distintos(3) [of slug]
    by (simp add: f4_def f3_def f2_def f1_def tex_def)
  then have nd6: "\<not> is_dir f4 (dir @ [''.gitignore''])"
    by (simp add: is_dir_def buscar_def)
  have padre4: "buscar f4 dir = Some Dir"
    using dirp(2) by (simp add: f4_def f3_def f2_def f1_def buscar_def tex_def)
  have p6: "write_text (pjoin dir ''.gitignore'') gitignore_contenido (w3\<lparr>archivos := f4\<rparr>) =
            (Inr (), w3\<lparr>archivos := f5\<rparr>)"
    using nd6 padre4
    by (simp add: write_text_def lift_fs_def os_write_directo hijo f5_def)
  have "materializar T info nombre autor fecha slug vars dir w0 =
          (Inr (), w3\<lparr>archivos := f5,
             salida := salida w3 @ [ResumenProyecto (descripcion info) nombre autor dir slug]\<rparr>)"
    unfolding materializar_pasos
    by (simp add: bind_def p1 p2 p3 p4 p5 p6 print_def)
  with c show ?thesis
    by (simp add: w3_def w0_def f5_def f4_def f3_def f2_def f1_def f_def tex_def dir_def
          slug_def fecha_def)
qed

subsection \<open>The example world\<close>

lemma ejemplo_existe:
  "existe (archivos mundo_ejemplo) [''plantillas'']"
  "existe (archivos mundo_ejemplo) [''proyectos'']"
  "\<not> existe (archivos mundo_ejemplo) [''nada'']"
  "\<not> existe (archivos mundo_ejemplo) [''proyectos'', ''mi-articulo'']"
  "\<not> existe (archivos mundo_ejemplo) [''plantillas'', ''referencias.bib'']"
  by (simp_all add: mundo_ejemplo_def existe_def buscar_def)

lemma ejemplo_slug: "slugify titulo_ejemplo = ''mi-articulo''"
  by code_simp

lemma ejemplo_tipo:
  "TIPOS ''art'' =
     Some \<lparr>plantilla = ''articulo.tex'', descripcion = ''Art'' @ [CHR 0xED] @ ''culo (article)'',
           clase = ''article''\<rparr>"
  by (simp add: TIPOS_def TIPOS_items_def)

lemma ejemplo_mes: "map_of meses_es (month hoy_ejemplo) = Some ''noviembre''"
  by (simp add: meses_es_def hoy_ejemplo_def)

lemma ejemplo_exito:
  "crear_proyecto [''plantillas''] hoy_ejemplo titulo_ejemplo ''art'' ''Juan'' [''proyectos'']
     mundo_ejemplo =
   (Inr (), snd (crear_proyecto [''plantillas''] hoy_ejemplo titulo_ejemplo ''art'' ''Juan''
                   [''proyectos''] mundo_ejemplo))"
proof -
  have "fst (crear_proyecto [''plantillas''] hoy_ejemplo titulo_ejemplo ''art'' ''Juan''
               [''proyectos''] mundo_ejemplo) = Inr ()"
    by code_simp
  then show ?thesis by (metis prod.collapse)
qed

subsection \<open>The claims about files and failures\<close>

text \<open>
  C4. \<open>verificar_plantillas\<close> ends the process with exit status 1 exactly when the template
  directory does not exist, after printing the error with the hints to create the directory
  and copy the templates. When the directory exists it returns normally: it prints one
  warning that lists the missing ones of the five required files, or nothing when none is
  missing. It never changes a file. After it has returned, with a known type, a month of
  the table and a free target directory, \<open>crear_proyecto\<close> is the materialisation (with its
  fallbacks for the missing templates) run in the world that \<open>verificar_plantillas\<close> left;
  and when all five files are missing, that run returns normally with the minimal document
  and the minimal bibliography in place.
\<close>

theorem verificar_plantillas_resultado:
  "(fst (verificar_plantillas T w) = Inl (SysExit 1) \<longleftrightarrow> \<not> existe (archivos w) T) \<and>
   (fst (verificar_plantillas T w) = Inr () \<longleftrightarrow> existe (archivos w) T) \<and>
   archivos (snd (verificar_plantillas T w)) = archivos w \<and>
   (\<not> existe (archivos w) T \<longrightarrow>
      salida (snd (verificar_plantillas T w)) = salida w @ [ErrorSinDirectorioPlantillas T]) \<and>
   (existe (archivos w) T \<longrightarrow>
      salida (snd (verificar_plantillas T w)) =
        salida w @
        (let faltantes = filter (\<lambda>a. \<not> existe (archivos w) (pjoin T a)) archivos_necesarios
         in if faltantes = [] then [] else [AdvertenciaFaltanPlantillas T faltantes])) \<and>
   (existe (archivos w) T \<and> TIPOS tipo = Some info \<and>
    map_of meses_es (month hoy) = Some mes \<and>
    \<not> existe (archivos w) (pjoin base (slugify nombre)) \<longrightarrow>
      crear_proyecto T hoy nombre tipo autor base w =
        materializar T info nombre autor
          (decimal (day hoy) @ '' de '' @ mes @ '' de '' @ decimal (year hoy))
          (slugify nombre)
          [(''TITULO'', nombre), (''AUTOR'', autor),
           (''FECHA'', decimal (day hoy) @ '' de '' @ mes @ '' de '' @ decimal (year hoy)),
           (''NOMBRE_ARCHIVO'', slugify nombre)]
          (pjoin base (slugify nombre)) (snd (verificar_plantillas T w))) \<and>
   (TIPOS tipo = Some info \<and> existe (archivos w) T \<and>
    map_of meses_es (month hoy) = Some mes \<and>
    is_dir (archivos w) base \<and> slugify nombre \<noteq> [] \<and>
    (\<forall>q. archivos w (base @ slugify nombre # q) = None) \<and>
    (\<forall>a\<in>set archivos_necesarios. \<not> existe (archivos w) (pjoin T a)) \<longrightarrow>
      crear_proyecto T hoy nombre tipo autor base w =
        (Inr (),
         w\<lparr>archivos := (archivos w)
              (base @ [slugify nombre] \<mapsto> Dir,
               base @ [slugify nombre, ''figuras''] \<mapsto> Dir,
               base @ [slugify nombre, slugify nombre @ ''.tex''] \<mapsto>
                 File (tex_minimo (clase info) nombre autor
                         (decimal (day hoy) @ '' de '' @ mes @ '' de '' @ decimal (year hoy))),
               base @ [slugify nombre, ''referencias.bib''] \<mapsto> File bib_minimo,
               base @ [slugify nombre, ''.gitignore''] \<mapsto> File gitignore_contenido),
            salida := salida w @
              [AdvertenciaFaltanPlantillas T archivos_necesarios,
               AdvertenciaSinPlantilla (pjoin T (plantilla info)),
               ResumenProyecto (descripcion info) nombre autor (base @ [slugify nombre])
                 (slugify nombre)]\<rparr>))"
proof (cases "existe (archivos w) T")
  case True
  note v = verificar_con_directorio [OF True]
  have "crear_proyecto T hoy nombre tipo autor base w =
        materializar T info nombre autor
          (decimal (day hoy) @ '' de '' @ mes @ '' de '' @ decimal (year hoy))
          (slugify nombre)
          [(''TITULO'', nombre), (''AUTOR'', autor),
           (''FECHA'', decimal (day hoy) @ '' de '' @ mes @ '' de '' @ decimal (year hoy)),
           (''NOMBRE_ARCHIVO'', slugify nombre)]
          (pjoin base (slugify nombre)) (snd (verificar_plantillas T w))"
    if "TIPOS tipo = Some info" and "map_of meses_es (month hoy) = Some mes"
      and "\<not> existe (archivos w) (pjoin base (slugify nombre))"
    using that by (simp add: crear_proyecto_def v formatear_fecha_def prog_defs Let_def)
  moreover note crear_proyecto_sin_plantillas [of tipo info w T hoy mes base nombre autor]
  ultimately show ?thesis
    using True by (simp add: v Let_def)
next
  case False
  then show ?thesis
    by (simp add: verificar_sin_directorio)
qed

text \<open>
  Both cases of C4 in the example world: no directory \<open>nada\<close>, and a directory
  \<open>plantillas\<close> with none of the five files, after which the materialisation returns
  normally and leaves the files of the fallbacks.
\<close>

theorem verificar_plantillas_resultado_witness:
  "\<not> existe (archivos mundo_ejemplo) [''nada''] \<and>
   verificar_plantillas [''nada''] mundo_ejemplo =
     (Inl (SysExit 1), mundo_ejemplo\<lparr>salida := [ErrorSinDirectorioPlantillas [''nada'']]\<rparr>) \<and>
   existe (archivos mundo_ejemplo) [''plantillas''] \<and>
   verificar_plantillas [''plantillas''] mundo_ejemplo =
     (Inr (), mundo_ejemplo\<lparr>salida :=
        [AdvertenciaFaltanPlantillas [''plantillas'']
           [''articulo.tex'', ''ensayo.tex'', ''presentacion.tex'', ''referencias.bib'',
            ''Makefile'']]\<rparr>) \<and>
   fst (materializar [''plantillas'']
          \<lparr>plantilla = ''articulo.tex'', descripcion = ''Art'' @ [CHR 0xED] @ ''culo (article)'',
           clase = ''article''\<rparr>
          titulo_ejemplo ''Juan''
          (decimal (day hoy_ejemplo) @ '' de '' @ ''noviembre'' @ '' de '' @
           decimal (year hoy_ejemplo))
          (slugify titulo_ejemplo)
          [(''TITULO'', titulo_ejemplo), (''AUTOR'', ''Juan''),
           (''FECHA'', decimal (day hoy_ejemplo) @ '' de '' @ ''noviembre'' @ '' de '' @
                       decimal (year hoy_ejemplo)),
           (''NOMBRE_ARCHIVO'', slugify titulo_ejemplo)]
          (pjoin [''proyectos''] (slugify titulo_ejemplo))
          (snd (verificar_plantillas [''plantillas''] mundo_ejemplo))) = Inr () \<and>
   is_dir (archivos mundo_ejemplo) [''proyectos''] \<and>
   crear_proyecto [''plantillas''] hoy_ejemplo titulo_ejemplo ''art'' ''Juan'' [''proyectos'']
     mundo_ejemplo =
     (Inr (),
      mundo_ejemplo
        \<lparr>archivos := (archivos mundo_ejemplo)
           ([''proyectos'', ''mi-articulo''] \<mapsto> Dir,
            [''proyectos'', ''mi-articulo'', ''figuras''] \<mapsto> Dir,
            [''proyectos'', ''mi-articulo'', ''mi-articulo.tex''] \<mapsto>
              File (tex_minimo ''article'' titulo_ejemplo ''Juan'' ''6 de noviembre de 2026''),
            [''proyectos'', ''mi-articulo'', ''referencias.bib''] \<mapsto> File bib_minimo,
            [''proyectos'', ''mi-articulo'', ''.gitignore''] \<mapsto> File gitignore_contenido),
         salida :=
           [AdvertenciaFaltanPlantillas [''plantillas'']
              [''articulo.tex'', ''ensayo.tex'', ''presentacion.tex'', ''referencias.bib'',
               ''Makefile''],
            AdvertenciaSinPlantilla [''plantillas'', ''articulo.tex''],
            ResumenProyecto (''Art'' @ [CHR 0xED] @ ''culo (article)'') titulo_ejemplo ''Juan''
              [''proyectos'', ''mi-articulo''] ''mi-articulo'']\<rparr>)"
proof -
  have sal: "salida mundo_ejemplo = []"
    by (simp add: mundo_ejemplo_def)
  have falt: "filter (\<lambda>a. \<not> existe (archivos mundo_ejemplo) (pjoin [''plantillas''] a))
                archivos_necesarios =
              [''articulo.tex'', ''ensayo.tex'', ''presentacion.tex'', ''referencias.bib'',
               ''Makefile'']"
    by (simp add: archivos_necesarios_def mundo_ejemplo_def existe_def buscar_def pjoin_def)
  from verificar_plantillas_resultado [of "[''nada'']" mundo_ejemplo] ejemplo_existe(3) sal
  have a: "verificar_plantillas [''nada''] mundo_ejemplo =
             (Inl (SysExit 1), mundo_ejemplo\<lparr>salida := [ErrorSinDirectorioPlantillas [''nada'']]\<rparr>)"
    by (intro prod_eqI) (simp_all add: mundo.equality)
  have d: "\<not> existe (archivos mundo_ejemplo) (pjoin [''proyectos''] (slugify titulo_ejemplo))"
    using ejemplo_existe(4) by (simp add: ejemplo_slug pjoin_def)
  note r = verificar_plantillas_resultado
    [of "[''plantillas'']" mundo_ejemplo "''art''"
        "\<lparr>plantilla = ''articulo.tex'',
          descripcion = ''Art'' @ [CHR 0xED] @ ''culo (article)'', clase = ''article''\<rparr>"
        hoy_ejemplo "''noviembre''" "[''proyectos'']" titulo_ejemplo "''Juan''"]
  from r ejemplo_existe(1) sal falt
  have b: "verificar_plantillas [''plantillas''] mundo_ejemplo =
             (Inr (), mundo_ejemplo\<lparr>salida :=
                [AdvertenciaFaltanPlantillas [''plantillas'']
                   [''articulo.tex'', ''ensayo.tex'', ''presentacion.tex'', ''referencias.bib'',
                    ''Makefile'']]\<rparr>)"
    by (intro prod_eqI) (simp_all add: mundo.equality Let_def)
  from r ejemplo_existe(1) ejemplo_tipo ejemplo_mes d
  have "crear_proyecto [''plantillas''] hoy_ejemplo titulo_ejemplo ''art'' ''Juan''
          [''proyectos''] mundo_ejemplo =
        materializar [''plantillas'']
          \<lparr>plantilla = ''articulo.tex'', descripcion = ''Art'' @ [CHR 0xED] @ ''culo (article)'',
           clase = ''article''\<rparr>
          titulo_ejemplo ''Juan''
          (decimal (day hoy_ejemplo) @ '' de '' @ ''noviembre'' @ '' de '' @
           decimal (year hoy_ejemplo))
          (slugify titulo_ejemplo)
          [(''TITULO'', titulo_ejemplo), (''AUTOR'', ''Juan''),
           (''FECHA'', decimal (day hoy_ejemplo) @ '' de '' @ ''noviembre'' @ '' de '' @
                       decimal (year hoy_ejemplo)),
           (''NOMBRE_ARCHIVO'', slugify titulo_ejemplo)]
          (pjoin [''proyectos''] (slugify titulo_ejemplo))
          (snd (verificar_plantillas [''plantillas''] mundo_ejemplo))"
    by blast
  with ejemplo_exito have c: "fst (materializar [''plantillas'']
          \<lparr>plantilla = ''articulo.tex'', descripcion = ''Art'' @ [CHR 0xED] @ ''culo (article)'',
           clase = ''article''\<rparr>
          titulo_ejemplo ''Juan''
          (decimal (day hoy_ejemplo) @ '' de '' @ ''noviembre'' @ '' de '' @
           decimal (year hoy_ejemplo))
          (slugify titulo_ejemplo)
          [(''TITULO'', titulo_ejemplo), (''AUTOR'', ''Juan''),
           (''FECHA'', decimal (day hoy_ejemplo) @ '' de '' @ ''noviembre'' @ '' de '' @
                       decimal (year hoy_ejemplo)),
           (''NOMBRE_ARCHIVO'', slugify titulo_ejemplo)]
          (pjoin [''proyectos''] (slugify titulo_ejemplo))
          (snd (verificar_plantillas [''plantillas''] mundo_ejemplo))) = Inr ()"
    by (metis fst_conv)
  have bd: "is_dir (archivos mundo_ejemplo) [''proyectos'']"
    by (simp add: mundo_ejemplo_def is_dir_def buscar_def)
  have ne: "slugify titulo_ejemplo \<noteq> []"
    by (simp add: ejemplo_slug)
  have libre: "\<forall>q. archivos mundo_ejemplo ([''proyectos''] @ slugify titulo_ejemplo # q) = None"
    by (simp add: ejemplo_slug mundo_ejemplo_def)
  have sin: "\<forall>a\<in>set archivos_necesarios.
               \<not> existe (archivos mundo_ejemplo) (pjoin [''plantillas''] a)"
    by (simp add: archivos_necesarios_def mundo_ejemplo_def existe_def buscar_def pjoin_def)
  have dec: "decimal (day hoy_ejemplo) = ''6''" "decimal (year hoy_ejemplo) = ''2026''"
    by code_simp+
  from r ejemplo_existe(1) ejemplo_tipo ejemplo_mes bd ne libre sin
  have "crear_proyecto [''plantillas''] hoy_ejemplo titulo_ejemplo ''art'' ''Juan'' [''proyectos'']
          mundo_ejemplo =
        (Inr (),
         mundo_ejemplo\<lparr>archivos := (archivos mundo_ejemplo)
              ([''proyectos''] @ [slugify titulo_ejemplo] \<mapsto> Dir,
               [''proyectos''] @ [slugify titulo_ejemplo, ''figuras''] \<mapsto> Dir,
               [''proyectos''] @ [slugify titulo_ejemplo, slugify titulo_ejemplo @ ''.tex''] \<mapsto>
                 File (tex_minimo
                         (clase \<lparr>plantilla = ''articulo.tex'',
                                 descripcion = ''Art'' @ [CHR 0xED] @ ''culo (article)'',
                                 clase = ''article''\<rparr>)
                         titulo_ejemplo ''Juan''
                         (decimal (day hoy_ejemplo) @ '' de '' @ ''noviembre'' @ '' de '' @
                          decimal (year hoy_ejemplo))),
               [''proyectos''] @ [slugify titulo_ejemplo, ''referencias.bib''] \<mapsto>
                 File bib_minimo,
               [''proyectos''] @ [slugify titulo_ejemplo, ''.gitignore''] \<mapsto>
                 File gitignore_contenido),
            salida := salida mundo_ejemplo @
              [AdvertenciaFaltanPlantillas [''plantillas''] archivos_necesarios,
               AdvertenciaSinPlantilla
                 (pjoin [''plantillas'']
                    (plantilla \<lparr>plantilla = ''articulo.tex'',
                                 descripcion = ''Art'' @ [CHR 0xED] @ ''culo (article)'',
                                 clase = ''article''\<rparr>)),
               ResumenProyecto
                 (descripcion \<lparr>plantilla = ''articulo.tex'',
                               descripcion = ''Art'' @ [CHR 0xED] @ ''culo (article)'',
                               clase = ''article''\<rparr>)
                 titulo_ejemplo ''Juan'' ([''proyectos''] @ [slugify titulo_ejemplo])
                 (slugify titulo_ejemplo)]\<rparr>)"
    by blast
  then have e: "crear_proyecto [''plantillas''] hoy_ejemplo titulo_ejemplo ''art'' ''Juan''
       [''proyectos''] mundo_ejemplo =
     (Inr (),
      mundo_ejemplo
        \<lparr>archivos := (archivos mundo_ejemplo)
           ([''proyectos'', ''mi-articulo''] \<mapsto> Dir,
            [''proyectos'', ''mi-articulo'', ''figuras''] \<mapsto> Dir,
            [''proyectos'', ''mi-articulo'', ''mi-articulo.tex''] \<mapsto>
              File (tex_minimo ''article'' titulo_ejemplo ''Juan'' ''6 de noviembre de 2026''),
            [''proyectos'', ''mi-articulo'', ''referencias.bib''] \<mapsto> File bib_minimo,
            [''proyectos'', ''mi-articulo'', ''.gitignore''] \<mapsto> File gitignore_contenido),
         salida :=
           [AdvertenciaFaltanPlantillas [''plantillas'']
              [''articulo.tex'', ''ensayo.tex'', ''presentacion.tex'', ''referencias.bib'',
               ''Makefile''],
            AdvertenciaSinPlantilla [''plantillas'', ''articulo.tex''],
            ResumenProyecto (''Art'' @ [CHR 0xED] @ ''culo (article)'') titulo_ejemplo ''Juan''
              [''proyectos'', ''mi-articulo''] ''mi-articulo'']\<rparr>)"
    by (simp add: ejemplo_slug dec sal archivos_necesarios_def pjoin_def)
  from a b c e bd ejemplo_existe(1) ejemplo_existe(3) show ?thesis by blast
qed

text \<open>
  C3. With a known type and an existing template directory (and dates whose month is one
  of the twelve): when the target directory exists, \<open>crear_proyecto\<close> ends with exit status
  1, its last message is the one about the existing directory, and the files are exactly
  what they were. When a first run returns normally, a second run with the same title, type
  and base directory (at any date) ends in that way and leaves the files of the first run
  as they are.
\<close>

theorem colision_sin_cambios:
  assumes "TIPOS tipo \<noteq> None" and "existe (archivos w) T"
    and "1 \<le> month hoy \<and> month hoy \<le> 12" and "1 \<le> month hoy' \<and> month hoy' \<le> 12"
  shows "(existe (archivos w) (pjoin base (slugify nombre)) \<longrightarrow>
            fst (crear_proyecto T hoy nombre tipo autor base w) = Inl (SysExit 1) \<and>
            archivos (snd (crear_proyecto T hoy nombre tipo autor base w)) = archivos w \<and>
            last (salida (snd (crear_proyecto T hoy nombre tipo autor base w))) =
              ErrorDirectorioExiste (pjoin base (slugify nombre))) \<and>
         (crear_proyecto T hoy nombre tipo autor base w = (Inr (), w1) \<longrightarrow>
            fst (crear_proyecto T hoy' nombre tipo autor base w1) = Inl (SysExit 1) \<and>
            archivos (snd (crear_proyecto T hoy' nombre tipo autor base w1)) = archivos w1 \<and>
            last (salida (snd (crear_proyecto T hoy' nombre tipo autor base w1))) =
              ErrorDirectorioExiste (pjoin base (slugify nombre)))"
proof -
  from assms(1) obtain info where t: "TIPOS tipo = Some info" by auto
  from assms(3) obtain mes where m: "map_of meses_es (month hoy) = Some mes"
    using mes_valido by blast
  from assms(4) obtain mes' where m': "map_of meses_es (month hoy') = Some mes'"
    using mes_valido by blast
  have a: "fst (crear_proyecto T h nombre tipo autor base v) = Inl (SysExit 1) \<and>
           archivos (snd (crear_proyecto T h nombre tipo autor base v)) = archivos v \<and>
           last (salida (snd (crear_proyecto T h nombre tipo autor base v))) =
             ErrorDirectorioExiste (pjoin base (slugify nombre))"
    if "existe (archivos v) T" and "map_of meses_es (month h) = Some ms"
      and "existe (archivos v) (pjoin base (slugify nombre))" for v h ms
    using crear_proyecto_colision [OF t that] by (simp add: verificar_archivos)
  have b: "existe (archivos w1) T \<and> existe (archivos w1) (pjoin base (slugify nombre))"
    if ok: "crear_proyecto T hoy nombre tipo autor base w = (Inr (), w1)"
  proof -
    from ok obtain info2 fecha wv where av: "archivos wv = archivos w"
      and mat: "materializar T info2 nombre autor fecha (slugify nombre)
           [(''TITULO'', nombre), (''AUTOR'', autor), (''FECHA'', fecha),
            (''NOMBRE_ARCHIVO'', slugify nombre)]
           (pjoin base (slugify nombre)) wv = (Inr (), w1)"
      by (rule crear_proyecto_Inr)
    from materializar_crea_directorio [OF mat] assms(2) av show ?thesis by simp
  qed
  show ?thesis
    using a [OF assms(2) m] a [OF _ m'] b by blast
qed

text \<open>
  C3 in the example world: the first run returns normally and the second one fails; and a
  run whose target (the base directory itself, for the title \<open>!\<close>) exists fails at once.
\<close>

theorem colision_sin_cambios_witness:
  "TIPOS ''art'' \<noteq> None \<and> existe (archivos mundo_ejemplo) [''plantillas''] \<and>
   1 \<le> month hoy_ejemplo \<and> month hoy_ejemplo \<le> 12 \<and>
   fst (crear_proyecto [''plantillas''] hoy_ejemplo titulo_ejemplo ''art'' ''Juan''
          [''proyectos''] mundo_ejemplo) = Inr () \<and>
   fst (crear_proyecto [''plantillas''] hoy_ejemplo titulo_ejemplo ''art'' ''Juan''
          [''proyectos'']
          (snd (crear_proyecto [''plantillas''] hoy_ejemplo titulo_ejemplo ''art'' ''Juan''
                  [''proyectos''] mundo_ejemplo))) = Inl (SysExit 1) \<and>
   archivos (snd (crear_proyecto [''plantillas''] hoy_ejemplo titulo_ejemplo ''art'' ''Juan''
          [''proyectos'']
          (snd (crear_proyecto [''plantillas''] hoy_ejemplo titulo_ejemplo ''art'' ''Juan''
                  [''proyectos''] mundo_ejemplo)))) =
     archivos (snd (crear_proyecto [''plantillas''] hoy_ejemplo titulo_ejemplo ''art'' ''Juan''
                  [''proyectos''] mundo_ejemplo)) \<and>
   existe (archivos mundo_ejemplo) (pjoin [''proyectos''] (slugify ''!'')) \<and>
   fst (crear_proyecto [''plantillas''] hoy_ejemplo ''!'' ''art'' ''Juan''
          [''proyectos''] mundo_ejemplo) = Inl (SysExit 1) \<and>
   archivos (snd (crear_proyecto [''plantillas''] hoy_ejemplo ''!'' ''art'' ''Juan''
          [''proyectos''] mundo_ejemplo)) = archivos mundo_ejemplo"
proof -
  have t: "TIPOS ''art'' \<noteq> None" by (simp add: ejemplo_tipo)
  have m: "1 \<le> month hoy_ejemplo \<and> month hoy_ejemplo \<le> 12" by (simp add: hoy_ejemplo_def)
  have s: "slugify ''!'' = []" by code_simp
  have d: "existe (archivos mundo_ejemplo) (pjoin [''proyectos''] (slugify ''!''))"
    using ejemplo_existe(2) by (simp add: s pjoin_def)
  from colision_sin_cambios [OF t ejemplo_existe(1) m m,
      of "[''proyectos'']" titulo_ejemplo "''Juan''"
         "snd (crear_proyecto [''plantillas''] hoy_ejemplo titulo_ejemplo ''art'' ''Juan''
                 [''proyectos''] mundo_ejemplo)"]
    ejemplo_exito
  have a: "fst (crear_proyecto [''plantillas''] hoy_ejemplo titulo_ejemplo ''art'' ''Juan''
          [''proyectos'']
          (snd (crear_proyecto [''plantillas''] hoy_ejemplo titulo_ejemplo ''art'' ''Juan''
                  [''proyectos''] mundo_ejemplo))) = Inl (SysExit 1) \<and>
      archivos (snd (crear_proyecto [''plantillas''] hoy_ejemplo titulo_ejemplo ''art'' ''Juan''
          [''proyectos'']
          (snd (crear_proyecto [''plantillas''] hoy_ejemplo titulo_ejemplo ''art'' ''Juan''
                  [''proyectos''] mundo_ejemplo)))) =
      archivos (snd (crear_proyecto [''plantillas''] hoy_ejemplo titulo_ejemplo ''art'' ''Juan''
                  [''proyectos''] mundo_ejemplo))"
    by blast
  from colision_sin_cambios [OF t ejemplo_existe(1) m m, of "[''proyectos'']" "''!''" "''Juan''"] d
  have b: "fst (crear_proyecto [''plantillas''] hoy_ejemplo ''!'' ''art'' ''Juan''
          [''proyectos''] mundo_ejemplo) = Inl (SysExit 1) \<and>
     archivos (snd (crear_proyecto [''plantillas''] hoy_ejemplo ''!'' ''art'' ''Juan''
          [''proyectos''] mundo_ejemplo)) = archivos mundo_ejemplo"
    by blast
  have c: "fst (crear_proyecto [''plantillas''] hoy_ejemplo titulo_ejemplo ''art'' ''Juan''
          [''proyectos''] mundo_ejemplo) = Inr ()"
    using ejemplo_exito by (metis fst_conv)
  from t ejemplo_existe(1) m a b c d show ?thesis by blast
qed

text \<open>
  C8. When the template directory has no \<open>referencias.bib\<close> and \<open>crear_proyecto\<close> returns
  normally, the project holds a file \<open>referencias.bib\<close> whose content is exactly the comment
  line \<open>% Referencias bibliograficas\<close> (with an acute accent on the second a of the last
  word, code point \<open>0xE1\<close>) and a newline.
\<close>

theorem bibliografia_minima:
  assumes "crear_proyecto T hoy nombre tipo autor base w = (Inr (), w')"
    and "\<not> existe (archivos w) (pjoin T ''referencias.bib'')"
  shows "archivos w' (pjoin (pjoin base (slugify nombre)) ''referencias.bib'') =
           Some (File (''% Referencias bibliogr'' @ [CHR 0xE1] @ ''ficas'' @ [CHR 0x0A]))"
proof -
  from assms(1) obtain info fecha wv where av: "archivos wv = archivos w"
    and mat: "materializar T info nombre autor fecha (slugify nombre)
           [(''TITULO'', nombre), (''AUTOR'', autor), (''FECHA'', fecha),
            (''NOMBRE_ARCHIVO'', slugify nombre)]
           (pjoin base (slugify nombre)) wv = (Inr (), w')"
    by (rule crear_proyecto_Inr)
  from assms(2) av have "\<not> existe (archivos wv) (pjoin T ''referencias.bib'')" by simp
  from materializar_bib_minimo [OF mat this] show ?thesis
    by (simp add: bib_minimo_def nl_def)
qed

text \<open>C8 in the example world, where the run returns normally.\<close>

theorem bibliografia_minima_witness:
  "\<not> existe (archivos mundo_ejemplo) (pjoin [''plantillas''] ''referencias.bib'') \<and>
   fst (crear_proyecto [''plantillas''] hoy_ejemplo titulo_ejemplo ''art'' ''Juan''
          [''proyectos''] mundo_ejemplo) = Inr () \<and>
   archivos (snd (crear_proyecto [''plantillas''] hoy_ejemplo titulo_ejemplo ''art'' ''Juan''
                   [''proyectos''] mundo_ejemplo))
     [''proyectos'', ''mi-articulo'', ''referencias.bib''] =
     Some (File (''% Referencias bibliogr'' @ [CHR 0xE1] @ ''ficas'' @ [CHR 0x0A]))"
proof -
  have h: "\<not> existe (archivos mundo_ejemplo) (pjoin [''plantillas''] ''referencias.bib'')"
    using ejemplo_existe(5) by (simp add: pjoin_def)
  have c: "fst (crear_proyecto [''plantillas''] hoy_ejemplo titulo_ejemplo ''art'' ''Juan''
          [''proyectos''] mundo_ejemplo) = Inr ()"
    using ejemplo_exito by (metis fst_conv)
  from bibliografia_minima [OF ejemplo_exito h] h c show ?thesis
    by (simp add: ejemplo_slug pjoin_def)
qed

lemma word_alnum: "is_alnum c \<Longrightarrow> is_word c"
  by (simp add: is_word_def)

text \<open>
  C10. For a title without word characters the slug is empty and the target path is the
  base directory itself. So, once the type is known and the template directory exists, a
  run with an existing base directory ends with exit status 1, changes no file, and its last
  message is the one about the existing directory, naming the base directory: there is no
  message of its own for an empty title.
\<close>

theorem titulo_sin_palabras:
  assumes "\<not> list_ex is_word nombre" and "TIPOS tipo \<noteq> None" and "existe (archivos w) T"
    and "1 \<le> month hoy \<and> month hoy \<le> 12" and "existe (archivos w) base"
  shows "slugify nombre = [] \<and> pjoin base (slugify nombre) = base \<and>
         fst (crear_proyecto T hoy nombre tipo autor base w) = Inl (SysExit 1) \<and>
         archivos (snd (crear_proyecto T hoy nombre tipo autor base w)) = archivos w \<and>
         last (salida (snd (crear_proyecto T hoy nombre tipo autor base w))) =
           ErrorDirectorioExiste base"
proof -
  from assms(1) have "\<not> list_ex is_alnum nombre"
    by (auto simp: list_ex_iff dest: word_alnum)
  then have s: "slugify nombre = []" by (simp add: slugify_empty_iff)
  then have p: "pjoin base (slugify nombre) = base" by (simp add: pjoin_def)
  from assms(2) obtain info where t: "TIPOS tipo = Some info" by auto
  from assms(4) obtain mes where m: "map_of meses_es (month hoy) = Some mes"
    using mes_valido by blast
  from assms(5) p have d: "existe (archivos w) (pjoin base (slugify nombre))" by simp
  from crear_proyecto_colision [OF t assms(3) m d] s p show ?thesis
    by (simp add: verificar_archivos)
qed

text \<open>C10 in the example world for the title \<open>!! ??\<close>.\<close>

theorem titulo_sin_palabras_witness:
  "\<not> list_ex is_word ''!! ??'' \<and> TIPOS ''art'' \<noteq> None \<and>
   existe (archivos mundo_ejemplo) [''plantillas''] \<and>
   1 \<le> month hoy_ejemplo \<and> month hoy_ejemplo \<le> 12 \<and>
   existe (archivos mundo_ejemplo) [''proyectos''] \<and>
   slugify ''!! ??'' = [] \<and>
   fst (crear_proyecto [''plantillas''] hoy_ejemplo ''!! ??'' ''art'' ''Juan'' [''proyectos'']
          mundo_ejemplo) = Inl (SysExit 1) \<and>
   archivos (snd (crear_proyecto [''plantillas''] hoy_ejemplo ''!! ??'' ''art'' ''Juan''
                    [''proyectos''] mundo_ejemplo)) = archivos mundo_ejemplo \<and>
   last (salida (snd (crear_proyecto [''plantillas''] hoy_ejemplo ''!! ??'' ''art'' ''Juan''
                        [''proyectos''] mundo_ejemplo))) = ErrorDirectorioExiste [''proyectos'']"
proof -
  have w: "\<not> list_ex is_word ''!! ??''"
    by (simp add: is_word_def is_alnum_def between_def)
  have t: "TIPOS ''art'' \<noteq> None" by (simp add: ejemplo_tipo)
  have m: "1 \<le> month hoy_ejemplo \<and> month hoy_ejemplo \<le> 12" by (simp add: hoy_ejemplo_def)
  from titulo_sin_palabras [OF w t ejemplo_existe(1) m ejemplo_existe(2), of "''Juan''"]
    w t m ejemplo_existe(1) ejemplo_existe(2)
  show ?thesis by blast
qed

end
